theory Spec2Isabelle
  imports Complex_Main
begin

section \<open>Python outcomes\<close>

text \<open>
  The layers of \<^verbatim>\<open>src/models/ConvNet2D_numpy.py\<close> are modelled over the real numbers:
  a numpy array is its shape together with its cells, and every exception the
  interpreter or numpy raises is a value of \<open>pyerror\<close>.  \<open>NonFinite\<close> marks the places
  where numpy does not raise but stores \<open>inf\<close> or \<open>nan\<close> (a division by zero on arrays,
  an exponential beyond the largest \<open>float64\<close>): such a result is no array of reals, so
  the model stops there.  Rounding is not modelled.
\<close>

datatype pyerror =
    NameError string
  | TypeError
  | ValueError
  | IndexError
  | AttributeError
  | AssertionError
  | ZeroDivisionError
  | MemoryError
  | NonFinite

definition bind_result :: "pyerror + 'a \<Rightarrow> ('a \<Rightarrow> pyerror + 'b) \<Rightarrow> pyerror + 'b" where
  "bind_result r f = (case r of Inl e \<Rightarrow> Inl e | Inr x \<Rightarrow> f x)"

section \<open>Two-dimensional arrays\<close>

record matrix =
  nrows :: nat
  ncols :: nat
  cell :: "nat \<Rightarrow> nat \<Rightarrow> real"

text \<open>\<open>np.array\<close> of a list of rows, and \<open>tolist\<close> back.\<close>

definition np_array2 :: "real list list \<Rightarrow> matrix" where
  "np_array2 rows =
     \<lparr>nrows = length rows,
      ncols = (case rows of [] \<Rightarrow> 0 | r # _ \<Rightarrow> length r),
      cell = (\<lambda>i j. rows ! i ! j)\<rparr>"

definition tolist2 :: "matrix \<Rightarrow> real list list" where
  "tolist2 A = map (\<lambda>i. map (\<lambda>j. cell A i j) [0..<ncols A]) [0..<nrows A]"

text \<open>numpy broadcasting of one axis: equal lengths, or one of them is 1.\<close>

definition broadcast_dim :: "nat \<Rightarrow> nat \<Rightarrow> nat option" where
  "broadcast_dim a b =
     (if a = b then Some a else if a = 1 then Some b else if b = 1 then Some a else None)"

definition bidx :: "nat \<Rightarrow> nat \<Rightarrow> nat" where
  "bidx d i = (if d = 1 then 0 else i)"

definition np_binop :: "(real \<Rightarrow> real \<Rightarrow> real) \<Rightarrow> matrix \<Rightarrow> matrix \<Rightarrow> pyerror + matrix" where
  "np_binop f A B =
     (case (broadcast_dim (nrows A) (nrows B), broadcast_dim (ncols A) (ncols B)) of
        (Some r, Some c) \<Rightarrow>
          Inr \<lparr>nrows = r, ncols = c,
               cell = (\<lambda>i j. f (cell A (bidx (nrows A) i) (bidx (ncols A) j))
                                (cell B (bidx (nrows B) i) (bidx (ncols B) j)))\<rparr>
      | _ \<Rightarrow> Inl ValueError)"

definition np_subtract :: "matrix \<Rightarrow> matrix \<Rightarrow> pyerror + matrix" where
  "np_subtract A B = np_binop (\<lambda>x y. x - y) A B"


text \<open>Array divided by a Python integer.\<close>

definition np_divide_int :: "matrix \<Rightarrow> nat \<Rightarrow> pyerror + matrix" where
  "np_divide_int A m =
     (if m = 0 \<and> 0 < nrows A * ncols A then Inl NonFinite
      else Inr (A\<lparr>cell := (\<lambda>i j. cell A i j / real m)\<rparr>))"



definition transpose_T :: "matrix \<Rightarrow> matrix" where
  "transpose_T A = \<lparr>nrows = ncols A, ncols = nrows A, cell = (\<lambda>i j. cell A j i)\<rparr>"

definition np_dot :: "matrix \<Rightarrow> matrix \<Rightarrow> pyerror + matrix" where
  "np_dot A B =
     (if ncols A = nrows B
      then Inr \<lparr>nrows = nrows A, ncols = ncols B,
                cell = (\<lambda>i j. \<Sum>k < ncols A. cell A i k * cell B k j)\<rparr>
      else Inl ValueError)"




definition np_sum_axis1 :: "matrix \<Rightarrow> matrix" where
  "np_sum_axis1 A = \<lparr>nrows = nrows A, ncols = 1, cell = (\<lambda>i j. \<Sum>k < ncols A. cell A i k)\<rparr>"

section \<open>FullyConnected\<close>

record fully_connected =
  input_dim :: nat
  output_dim :: nat
  fc_W :: matrix
  fc_b :: matrix



type_synonym linear_cache = "matrix \<times> matrix \<times> matrix"
type_synonym fc_caches = "linear_cache \<times> matrix"

text \<open>
  \<open>FullyConnected.backward\<close>.  The method is given the layer \<open>self\<close> and hands it back
  with the outcome: the body assigns only local names.
\<close>

definition FullyConnected_backward ::
  "fully_connected \<Rightarrow> matrix \<Rightarrow> matrix \<Rightarrow> fc_caches \<Rightarrow> real
     \<Rightarrow> fully_connected \<times> (pyerror + matrix \<times> matrix \<times> matrix)" where
  "FullyConnected_backward self AL Y caches learning_rate =
     (let m = ncols AL;
          (linear_cache, activation_cache) = caches;
          (X, W, b) = linear_cache;
          Z = activation_cache
      in (self,
          bind_result (np_subtract AL Y) (\<lambda>dAL.
          bind_result (bind_result (np_dot dAL (transpose_T X)) (\<lambda>p. np_divide_int p m)) (\<lambda>dW.
          bind_result (np_divide_int (np_sum_axis1 dAL) m) (\<lambda>db.
          bind_result (np_dot (transpose_T W) dAL) (\<lambda>dA_prev.
            Inr (dA_prev, dW, db)))))))"


section \<open>Python loops and names\<close>

text \<open>A \<open>for\<close> loop over a list of indices; an exception in the body ends the loop.\<close>

primrec for_loop :: "nat list \<Rightarrow> (nat \<Rightarrow> 's \<Rightarrow> pyerror + 's) \<Rightarrow> 's \<Rightarrow> pyerror + 's" where
  "for_loop [] body s = Inr s"
| "for_loop (x # xs) body s = bind_result (body x s) (for_loop xs body)"

definition for_range :: "nat \<Rightarrow> (nat \<Rightarrow> 's \<Rightarrow> pyerror + 's) \<Rightarrow> 's \<Rightarrow> pyerror + 's" where
  "for_range n body s = for_loop [0..<n] body s"

text \<open>
  A bare name inside a method is looked up in the module's global namespace (the class body
  is no enclosing scope).  The module binds \<open>np\<close> and its four classes and nothing else.
\<close>

datatype pyvalue = PyFunction "real \<Rightarrow> real" | PyArray matrix | PyModule | PyClass

type_synonym namespace = "string \<Rightarrow> pyvalue option"

definition module_globals :: namespace where
  "module_globals =
     map_of [(''np'', PyModule), (''ConvNet2D'', PyClass), (''Conv2d'', PyClass),
             (''Pooling'', PyClass), (''FullyConnected'', PyClass)]"

definition load_global :: "namespace \<Rightarrow> string \<Rightarrow> pyerror + pyvalue" where
  "load_global g name = (case g name of None \<Rightarrow> Inl (NameError name) | Some v \<Rightarrow> Inr v)"

text \<open>Calling a value on one number: only a function can take it.\<close>

definition call_scalar :: "pyvalue \<Rightarrow> real \<Rightarrow> pyerror + real" where
  "call_scalar v x = (case v of PyFunction f \<Rightarrow> Inr (f x) | _ \<Rightarrow> Inl TypeError)"

text \<open>\<open>int(x)\<close> on a float truncates towards zero.\<close>

definition py_int :: "real \<Rightarrow> int" where
  "py_int x = (if 0 \<le> x then \<lfloor>x\<rfloor> else \<lceil>x\<rceil>)"

section \<open>Four-dimensional arrays\<close>

record tensor4 =
  shape4 :: "nat \<times> nat \<times> nat \<times> nat"
  at4 :: "nat \<Rightarrow> nat \<Rightarrow> nat \<Rightarrow> nat \<Rightarrow> real"

record tensor3 =
  shape3 :: "nat \<times> nat \<times> nat"
  at3 :: "nat \<Rightarrow> nat \<Rightarrow> nat \<Rightarrow> real"

definition len_hd :: "'a list list \<Rightarrow> nat" where
  "len_hd xs = (case xs of [] \<Rightarrow> 0 | x # _ \<Rightarrow> length x)"

text \<open>\<open>np.array\<close> of nested lists (sample, row, column, channel), and \<open>tolist\<close> back.\<close>

definition np_array4 :: "real list list list list \<Rightarrow> tensor4" where
  "np_array4 xs =
     \<lparr>shape4 = (length xs, len_hd xs, len_hd (concat xs), len_hd (concat (concat xs))),
      at4 = (\<lambda>i r q c. xs ! i ! r ! q ! c)\<rparr>"

definition tolist4 :: "tensor4 \<Rightarrow> real list list list list" where
  "tolist4 T =
     (case shape4 T of (m, H, W, C) \<Rightarrow>
        map (\<lambda>i. map (\<lambda>r. map (\<lambda>q. map (\<lambda>c. at4 T i r q c) [0..<C]) [0..<W]) [0..<H]) [0..<m])"

definition np_zeros4 :: "nat \<times> nat \<times> nat \<times> nat \<Rightarrow> tensor4" where
  "np_zeros4 s = \<lparr>shape4 = s, at4 = (\<lambda>i r q c. 0)\<rparr>"

text \<open>\<open>T[i, h, w, c] = v\<close>.\<close>

definition set4 :: "tensor4 \<Rightarrow> nat \<Rightarrow> nat \<Rightarrow> nat \<Rightarrow> nat \<Rightarrow> real \<Rightarrow> tensor4" where
  "set4 T i h w c v =
     T\<lparr>at4 := (\<lambda>i' h' w' c'. if i' = i \<and> h' = h \<and> w' = w \<and> c' = c then v
                              else at4 T i' h' w' c')\<rparr>"

text \<open>
  \<open>T[i, vs:ve, hs:he, c]\<close>: a slice is cut off at the end of the axis, so it may hold fewer
  cells than asked for, or none.
\<close>

definition slice_hw :: "tensor4 \<Rightarrow> nat \<Rightarrow> nat \<Rightarrow> nat \<Rightarrow> nat \<Rightarrow> nat \<Rightarrow> nat \<Rightarrow> matrix" where
  "slice_hw T i vs ve hs he c =
     (case shape4 T of (m, H, W, C) \<Rightarrow>
        \<lparr>nrows = min ve H - min vs H, ncols = min he W - min hs W,
         cell = (\<lambda>a b. at4 T i (vs + a) (hs + b) c)\<rparr>)"

text \<open>\<open>T[i, vs:ve, hs:he, c] += G\<close> for an array \<open>G\<close> of the slice's shape.\<close>

definition add_window ::
  "tensor4 \<Rightarrow> nat \<Rightarrow> nat \<Rightarrow> nat \<Rightarrow> nat \<Rightarrow> nat \<Rightarrow> nat \<Rightarrow> (nat \<Rightarrow> nat \<Rightarrow> real) \<Rightarrow> tensor4" where
  "add_window T i vs ve hs he c G =
     (case shape4 T of (m, H, W, C) \<Rightarrow>
        T\<lparr>at4 := (\<lambda>i' r q c'.
              if i' = i \<and> c' = c \<and> vs \<le> r \<and> r < min ve H \<and> hs \<le> q \<and> q < min he W
              then at4 T i' r q c' + G (r - vs) (q - hs)
              else at4 T i' r q c')\<rparr>)"

text \<open>\<open>np.max\<close> and \<open>np.mean\<close> of a whole two-dimensional array.\<close>

definition np_max :: "matrix \<Rightarrow> pyerror + real" where
  "np_max A =
     (if nrows A * ncols A = 0 then Inl ValueError
      else Inr (Max ((\<lambda>(a, b). cell A a b) ` ({..< nrows A} \<times> {..< ncols A}))))"

definition np_mean :: "matrix \<Rightarrow> pyerror + real" where
  "np_mean A =
     (if nrows A * ncols A = 0 then Inl NonFinite
      else Inr ((\<Sum>a < nrows A. \<Sum>b < ncols A. cell A a b) / real (nrows A * ncols A)))"

section \<open>Pooling\<close>

record pool_hparameters =
  pool_f :: nat
  pool_stride :: nat

record pooling =
  pool_hparams :: pool_hparameters
  pool_mode :: string

text \<open>
  \<open>Pooling.__init__(self, f, stride, mode='max')\<close>.  An argument that the caller does not
  pass is \<open>None\<close> here: \<open>stride\<close> has no default, \<open>mode\<close> has.
\<close>

definition Pooling_init :: "nat \<Rightarrow> nat option \<Rightarrow> string option \<Rightarrow> pyerror + pooling" where
  "Pooling_init f stride mode =
     (case stride of
        None \<Rightarrow> Inl TypeError
      | Some s \<Rightarrow>
          (let md = (case mode of None \<Rightarrow> ''max'' | Some x \<Rightarrow> x)
           in if md = ''max'' \<or> md = ''average''
              then Inr \<lparr>pool_hparams = \<lparr>pool_f = f, pool_stride = s\<rparr>, pool_mode = md\<rparr>
              else Inl AssertionError))"

text \<open>\<open>int(1 + (n_prev - f) / stride)\<close>.\<close>

definition pool_out_dim :: "nat \<Rightarrow> nat \<Rightarrow> nat \<Rightarrow> pyerror + int" where
  "pool_out_dim n_prev f stride =
     (if stride = 0 then Inl ZeroDivisionError
      else Inr (py_int (1 + real_of_int (int n_prev - int f) / real stride)))"

type_synonym pool_cache = "tensor4 \<times> pool_hparameters"

text \<open>One pass of the innermost loop body of \<open>Pooling.forward\<close>.\<close>

definition Pooling_forward_cell ::
  "pooling \<Rightarrow> tensor4 \<Rightarrow> nat \<Rightarrow> nat \<Rightarrow> nat \<Rightarrow> nat \<Rightarrow> tensor4 \<Rightarrow> pyerror + tensor4" where
  "Pooling_forward_cell self A_prev i h w c A =
     (let f = pool_f (pool_hparams self);
          stride = pool_stride (pool_hparams self);
          vert_start = h * stride;
          vert_end = h * stride + f;
          horiz_start = w * stride;
          horiz_end = w * stride + f;
          a_prev_slice = slice_hw A_prev i vert_start vert_end horiz_start horiz_end c
      in if pool_mode self = ''max''
         then bind_result (np_max a_prev_slice) (\<lambda>v. Inr (set4 A i h w c v))
         else if pool_mode self = ''average''
         then bind_result (np_mean a_prev_slice) (\<lambda>v. Inr (set4 A i h w c v))
         else Inr A)"

definition Pooling_forward :: "pooling \<Rightarrow> tensor4 \<Rightarrow> pyerror + tensor4 \<times> pool_cache" where
  "Pooling_forward self A_prev =
     (case shape4 A_prev of (m, n_H_prev, n_W_prev, n_C_prev) \<Rightarrow>
      let f = pool_f (pool_hparams self);
          stride = pool_stride (pool_hparams self)
      in bind_result (pool_out_dim n_H_prev f stride) (\<lambda>n_H.
         bind_result (pool_out_dim n_W_prev f stride) (\<lambda>n_W.
         let n_C = n_C_prev
         in if n_H < 0 \<or> n_W < 0 then Inl ValueError
            else
              bind_result
                (for_range m (\<lambda>i.
                 for_range (nat n_H) (\<lambda>h.
                 for_range (nat n_W) (\<lambda>w.
                 for_range n_C (\<lambda>c.
                   Pooling_forward_cell self A_prev i h w c))))
                   (np_zeros4 (m, nat n_H, nat n_W, n_C)))
                (\<lambda>A. Inr (A, (A_prev, pool_hparams self))))))"

text \<open>
  One pass of the innermost loop body of \<open>Pooling.backward\<close>.  In max mode the mask is 1 where
  the window's cell equals the window's maximum and 0 elsewhere.  In average mode
  \<open>np.full((f, f), average)\<close> has to broadcast to the slice of \<open>dA_prev\<close>.
\<close>

definition Pooling_backward_cell ::
  "pooling \<Rightarrow> pool_hparameters \<Rightarrow> tensor4 \<Rightarrow> tensor4 \<Rightarrow> nat \<Rightarrow> nat \<Rightarrow> nat \<Rightarrow> nat \<Rightarrow> tensor4
     \<Rightarrow> pyerror + tensor4" where
  "Pooling_backward_cell self hparameters A_prev dA i h w c dA_prev =
     (case shape4 A_prev of (m_prev, n_H_prev, n_W_prev, n_C_prev) \<Rightarrow>
      let f = pool_f hparameters;
          stride = pool_stride hparameters;
          vert_start = h * stride;
          vert_end = h * stride + f;
          horiz_start = w * stride;
          horiz_end = w * stride + f
      in if pool_mode self = ''max'' then
           (if n_C_prev \<le> c then Inl IndexError
            else
              let a_prev_slice = slice_hw A_prev i vert_start vert_end horiz_start horiz_end c
              in bind_result (np_max a_prev_slice) (\<lambda>mx.
                   Inr (add_window dA_prev i vert_start vert_end horiz_start horiz_end c
                          (\<lambda>a b. at4 dA i h w c * (if cell a_prev_slice a b = mx then 1 else 0)))))
         else if pool_mode self = ''average'' then
           (if n_C_prev \<le> c then Inl IndexError
            else
              let da = at4 dA i h w c;
                  rows = min vert_end n_H_prev - min vert_start n_H_prev;
                  cols = min horiz_end n_W_prev - min horiz_start n_W_prev
              in if (f = rows \<or> f = 1) \<and> (f = cols \<or> f = 1)
                 then Inr (add_window dA_prev i vert_start vert_end horiz_start horiz_end c
                             (\<lambda>a b. da / real (f * f)))
                 else Inl ValueError)
         else Inr dA_prev)"

definition Pooling_backward :: "pooling \<Rightarrow> tensor4 \<Rightarrow> pool_cache \<Rightarrow> pyerror + tensor4" where
  "Pooling_backward self dA cache =
     (case cache of (A_prev, hparameters) \<Rightarrow>
      case shape4 A_prev of (m_prev, n_H_prev, n_W_prev, n_C_prev) \<Rightarrow>
      case shape4 dA of (m, n_H, n_W, n_C) \<Rightarrow>
        for_range m (\<lambda>i dA_prev.
          if m_prev \<le> i then Inl IndexError
          else
            for_range n_H (\<lambda>h.
            for_range n_W (\<lambda>w.
            for_range n_C (\<lambda>c.
              Pooling_backward_cell self hparameters A_prev dA i h w c))) dA_prev)
          (np_zeros4 (shape4 A_prev)))"

section \<open>Conv2d\<close>

record conv_hparameters =
  conv_stride :: nat
  conv_pad :: nat

record conv2d =
  conv_in_channels :: int
  conv_kernel_size :: int
  conv_n_filters :: int
  conv_hparams :: conv_hparameters
  conv_W :: tensor4
  conv_b :: tensor4

text \<open>
  \<open>np.random.randn\<close> draws from numpy's global generator and allocates its result.  The
  state of numpy is the stream of numbers the generator will hand out and the number of
  cells of the largest array that can be allocated at the moment, which depends on the
  machine.
\<close>

record numpy_runtime =
  stream :: "nat \<Rightarrow> real"
  max_cells :: nat

type_synonym rng = numpy_runtime

text \<open>
  Allocating an array of \<open>float64\<close> for a shape of Python integers, on a 64-bit build:
  a negative length, a length beyond the largest index \<open>2\<^sup>6\<^sup>3 - 1\<close>, or a size in bytes
  (8 per cell, lengths 0 left out of the product) beyond it are a \<open>ValueError\<close>; a shape
  with more cells than can be allocated is a \<open>MemoryError\<close>.
\<close>

definition intp_max :: int where
  "intp_max = 2 ^ 63 - 1"

definition array_alloc :: "nat \<Rightarrow> int list \<Rightarrow> pyerror + unit" where
  "array_alloc cap dims =
     (if list_ex (\<lambda>d. d < 0 \<or> intp_max < d) dims \<or>
         intp_max < 8 * prod_list (filter (\<lambda>d. d \<noteq> 0) dims)
      then Inl ValueError
      else if int cap < prod_list dims then Inl MemoryError
      else Inr ())"

text \<open>An array takes its cells from the front of the stream, in row-major order.\<close>

definition randn4 :: "rng \<Rightarrow> int \<Rightarrow> int \<Rightarrow> int \<Rightarrow> int \<Rightarrow> pyerror + tensor4 \<times> rng" where
  "randn4 s d0 d1 d2 d3 =
     bind_result (array_alloc (max_cells s) [d0, d1, d2, d3]) (\<lambda>_.
        let n0 = nat d0; n1 = nat d1; n2 = nat d2; n3 = nat d3
        in Inr (\<lparr>shape4 = (n0, n1, n2, n3),
                  at4 = (\<lambda>i j k l. stream s (((i * n1 + j) * n2 + k) * n3 + l))\<rparr>,
                 s\<lparr>stream := (\<lambda>n. stream s (n + n0 * n1 * n2 * n3))\<rparr>))"

definition randn2 :: "rng \<Rightarrow> int \<Rightarrow> int \<Rightarrow> pyerror + matrix \<times> rng" where
  "randn2 s d0 d1 =
     bind_result (array_alloc (max_cells s) [d0, d1]) (\<lambda>_.
        let n0 = nat d0; n1 = nat d1
        in Inr (\<lparr>nrows = n0, ncols = n1, cell = (\<lambda>i j. stream s (i * n1 + j))\<rparr>,
                 s\<lparr>stream := (\<lambda>n. stream s (n + n0 * n1))\<rparr>))"

text \<open>
  \<open>Conv2d.__init__(self, in_channels, out_channels, kernel_size, stride=1,
  padding_mode='zeros', padding=0)\<close>.  The body never reads \<open>padding_mode\<close>.
\<close>

definition Conv2d_init ::
  "rng \<Rightarrow> int \<Rightarrow> int \<Rightarrow> int \<Rightarrow> nat \<Rightarrow> string + nat \<Rightarrow> nat \<Rightarrow> pyerror + conv2d \<times> rng" where
  "Conv2d_init s in_channels out_channels kernel_size stride padding_mode padding =
     bind_result (randn4 s kernel_size kernel_size in_channels out_channels) (\<lambda>(W, s1).
     bind_result (randn4 s1 1 1 1 out_channels) (\<lambda>(b, s2).
       Inr (\<lparr>conv_in_channels = in_channels,
               conv_kernel_size = kernel_size,
               conv_n_filters = out_channels,
               conv_hparams = \<lparr>conv_stride = stride, conv_pad = padding\<rparr>,
               conv_W = W,
               conv_b = b\<rparr>, s2)))"

text \<open>
  \<open>Conv2d.zero_pad(self, X)\<close>.  The method takes one array; \<open>extra\<close> holds whatever further
  positional arguments a call passes, and any such argument is a \<open>TypeError\<close>.
\<close>

definition Conv2d_zero_pad :: "conv2d \<Rightarrow> tensor4 \<Rightarrow> nat list \<Rightarrow> pyerror + tensor4" where
  "Conv2d_zero_pad self X extra =
     (if extra \<noteq> [] then Inl TypeError
      else
        case shape4 X of (m, n_H, n_W, n_C) \<Rightarrow>
        let p = conv_pad (conv_hparams self)
        in Inr \<lparr>shape4 = (m, n_H + 2 * p, n_W + 2 * p, n_C),
                 at4 = (\<lambda>i r q c.
                    if p \<le> r \<and> r < p + n_H \<and> p \<le> q \<and> q < p + n_W
                    then at4 X i (r - p) (q - p) c else 0)\<rparr>)"

text \<open>Broadcasting of two three-dimensional arrays, and \<open>np.sum\<close> of one.\<close>

definition np_binop3 :: "(real \<Rightarrow> real \<Rightarrow> real) \<Rightarrow> tensor3 \<Rightarrow> tensor3 \<Rightarrow> pyerror + tensor3" where
  "np_binop3 f A B =
     (case (shape3 A, shape3 B) of ((a0, a1, a2), (b0, b1, b2)) \<Rightarrow>
        (case (broadcast_dim a0 b0, broadcast_dim a1 b1, broadcast_dim a2 b2) of
           (Some d0, Some d1, Some d2) \<Rightarrow>
             Inr \<lparr>shape3 = (d0, d1, d2),
                  at3 = (\<lambda>i j k. f (at3 A (bidx a0 i) (bidx a1 j) (bidx a2 k))
                                    (at3 B (bidx b0 i) (bidx b1 j) (bidx b2 k)))\<rparr>
         | _ \<Rightarrow> Inl ValueError))"

definition np_sum3 :: "tensor3 \<Rightarrow> real" where
  "np_sum3 A = (case shape3 A of (d0, d1, d2) \<Rightarrow> \<Sum>i < d0. \<Sum>j < d1. \<Sum>k < d2. at3 A i j k)"

text \<open>\<open>T[vs:ve, hs:he, :]\<close> of sample \<open>i\<close>, and \<open>W[:, :, :, c]\<close>.\<close>

definition window3 :: "tensor4 \<Rightarrow> nat \<Rightarrow> nat \<Rightarrow> nat \<Rightarrow> nat \<Rightarrow> nat \<Rightarrow> tensor3" where
  "window3 T i vs ve hs he =
     (case shape4 T of (m, H, W, C) \<Rightarrow>
        \<lparr>shape3 = (min ve H - min vs H, min he W - min hs W, C),
         at3 = (\<lambda>a b k. at4 T i (vs + a) (hs + b) k)\<rparr>)"

definition last_axis :: "tensor4 \<Rightarrow> nat \<Rightarrow> pyerror + tensor3" where
  "last_axis T c =
     (case shape4 T of (d0, d1, d2, d3) \<Rightarrow>
        if d3 \<le> c then Inl IndexError
        else Inr \<lparr>shape3 = (d0, d1, d2), at3 = (\<lambda>a b k. at4 T a b k c)\<rparr>)"

text \<open>\<open>Conv2d.conv_single_step\<close>: \<open>np.sum(np.multiply(slice, W) + b)\<close>.\<close>

definition Conv2d_conv_single_step :: "tensor3 \<Rightarrow> tensor3 \<Rightarrow> tensor3 \<Rightarrow> pyerror + real" where
  "Conv2d_conv_single_step slice W b =
     bind_result (np_binop3 (\<lambda>x y. x * y) slice W) (\<lambda>prod.
     bind_result (np_binop3 (\<lambda>x y. x + y) prod b) (\<lambda>s.
       Inr (np_sum3 s)))"

text \<open>\<open>Conv2d.ReLU\<close>, a static method of the class.\<close>

definition Conv2d_ReLU :: "real \<Rightarrow> real" where
  "Conv2d_ReLU Z = max 0 Z"

text \<open>\<open>int(np.floor((n_prev - f + 2 * pad) / stride) + 1)\<close>.\<close>

definition conv_out_dim :: "nat \<Rightarrow> nat \<Rightarrow> nat \<Rightarrow> nat \<Rightarrow> pyerror + int" where
  "conv_out_dim n_prev f pad stride =
     (if stride = 0 then Inl ZeroDivisionError
      else Inr (py_int (real_of_int \<lfloor>real_of_int (int n_prev - int f + 2 * int pad) / real stride\<rfloor> + 1)))"

text \<open>The objects a cache is made of.\<close>

datatype pyobj = Tensor tensor4 | HParams conv_hparameters | Tuple "pyobj list"

text \<open>
  One pass of the innermost loop body of \<open>Conv2d.forward\<close>, run in a module namespace \<open>g\<close>:
  the body calls the bare name \<open>ReLU\<close>.  \<open>f\<close> and \<open>stride\<close> are the method's local names.
\<close>

definition Conv2d_forward_cell ::
  "namespace \<Rightarrow> conv2d \<Rightarrow> nat \<Rightarrow> nat \<Rightarrow> tensor4 \<Rightarrow> nat \<Rightarrow> nat \<Rightarrow> nat \<Rightarrow> nat
     \<Rightarrow> tensor4 \<times> tensor4 \<Rightarrow> pyerror + tensor4 \<times> tensor4" where
  "Conv2d_forward_cell g self f stride A_prev_pad i h w c ZA =
     (case ZA of (Z, A) \<Rightarrow>
      let vert_start = h * stride;
          vert_end = vert_start + f;
          horiz_start = w * stride;
          horiz_end = horiz_start + f;
          a_slice_prev = window3 A_prev_pad i vert_start vert_end horiz_start horiz_end
      in bind_result (last_axis (conv_W self) c) (\<lambda>weights.
         bind_result (last_axis (conv_b self) c) (\<lambda>biases.
         bind_result (Conv2d_conv_single_step a_slice_prev weights biases) (\<lambda>z.
         let Z' = set4 Z i h w c z
         in bind_result (load_global g ''ReLU'') (\<lambda>relu.
            bind_result (call_scalar relu (at4 Z' i h w c)) (\<lambda>a.
              Inr (Z', set4 A i h w c a)))))))"

text \<open>
  \<open>Conv2d.forward\<close>.  \<open>(f, f, n_C_prev, n_C) = self.W.shape\<close> leaves in \<open>f\<close> the second length
  of the shape.
\<close>

definition Conv2d_forward_in :: "namespace \<Rightarrow> conv2d \<Rightarrow> tensor4 \<Rightarrow> pyerror + tensor4 \<times> pyobj" where
  "Conv2d_forward_in g self A_prev =
     (case shape4 A_prev of (m, n_H_prev, n_W_prev, n_C_prev0) \<Rightarrow>
      case shape4 (conv_W self) of (f0, f, n_C_prev, n_C) \<Rightarrow>
      let stride = conv_stride (conv_hparams self);
          pad = conv_pad (conv_hparams self)
      in bind_result (conv_out_dim n_H_prev f pad stride) (\<lambda>n_H.
         bind_result (conv_out_dim n_W_prev f pad stride) (\<lambda>n_W.
         if n_H < 0 \<or> n_W < 0 then Inl ValueError
         else
           let Z = np_zeros4 (m, nat n_H, nat n_W, n_C);
               A = np_zeros4 (m, nat n_H, nat n_W, n_C)
           in bind_result (Conv2d_zero_pad self A_prev []) (\<lambda>A_prev_pad.
              bind_result
                (for_range m (\<lambda>i.
                 for_range (nat n_H) (\<lambda>h.
                 for_range (nat n_W) (\<lambda>w.
                 for_range n_C (\<lambda>c.
                   Conv2d_forward_cell g self f stride A_prev_pad i h w c))))
                   (Z, A))
                (\<lambda>(Z, A).
                   Inr (A, Tuple [Tuple [Tensor A_prev, Tensor (conv_W self), Tensor (conv_b self),
                                         HParams (conv_hparams self)],
                                  Tensor Z]))))))"

definition Conv2d_forward :: "conv2d \<Rightarrow> tensor4 \<Rightarrow> pyerror + tensor4 \<times> pyobj" where
  "Conv2d_forward self A_prev = Conv2d_forward_in module_globals self A_prev"

text \<open>
  In-place addition into a slice: the right-hand side has to broadcast to the shape of the
  slice (each length equal to the slice's, or 1).
\<close>

definition broadcast_to3 ::
  "tensor3 \<Rightarrow> nat \<times> nat \<times> nat \<Rightarrow> pyerror + (nat \<Rightarrow> nat \<Rightarrow> nat \<Rightarrow> real)" where
  "broadcast_to3 G target =
     (case (shape3 G, target) of ((g0, g1, g2), (t0, t1, t2)) \<Rightarrow>
        if (g0 = t0 \<or> g0 = 1) \<and> (g1 = t1 \<or> g1 = 1) \<and> (g2 = t2 \<or> g2 = 1)
        then Inr (\<lambda>a b k. at3 G (if g0 = t0 then a else 0) (if g1 = t1 then b else 0)
                              (if g2 = t2 then k else 0))
        else Inl ValueError)"

definition scale3 :: "tensor3 \<Rightarrow> real \<Rightarrow> tensor3" where
  "scale3 G x = G\<lparr>at3 := (\<lambda>a b k. at3 G a b k * x)\<rparr>"

text \<open>\<open>T[i][vs:ve, hs:he, :] += G\<close>.\<close>

definition iadd_window3 ::
  "tensor4 \<Rightarrow> nat \<Rightarrow> nat \<Rightarrow> nat \<Rightarrow> nat \<Rightarrow> nat \<Rightarrow> tensor3 \<Rightarrow> pyerror + tensor4" where
  "iadd_window3 T i vs ve hs he G =
     (case shape4 T of (m, H, W, C) \<Rightarrow>
        bind_result (broadcast_to3 G (min ve H - min vs H, min he W - min hs W, C)) (\<lambda>g.
          Inr (T\<lparr>at4 := (\<lambda>i' r q k.
                 if i' = i \<and> vs \<le> r \<and> r < min ve H \<and> hs \<le> q \<and> q < min he W \<and> k < C
                 then at4 T i' r q k + g (r - vs) (q - hs) k
                 else at4 T i' r q k)\<rparr>)))"

text \<open>\<open>T[:, :, :, c] += G\<close>.\<close>

definition iadd_last_axis :: "tensor4 \<Rightarrow> nat \<Rightarrow> tensor3 \<Rightarrow> pyerror + tensor4" where
  "iadd_last_axis T c G =
     (case shape4 T of (d0, d1, d2, d3) \<Rightarrow>
        if d3 \<le> c then Inl IndexError
        else
          bind_result (broadcast_to3 G (d0, d1, d2)) (\<lambda>g.
            Inr (T\<lparr>at4 := (\<lambda>a b k c'.
                   if c' = c \<and> a < d0 \<and> b < d1 \<and> k < d2 then at4 T a b k c' + g a b k
                   else at4 T a b k c')\<rparr>)))"

text \<open>\<open>T[i, :, :, :] = G\<close>.\<close>

definition set_sample :: "tensor4 \<Rightarrow> nat \<Rightarrow> tensor3 \<Rightarrow> pyerror + tensor4" where
  "set_sample T i G =
     (case shape4 T of (m, H, W, C) \<Rightarrow>
        if m \<le> i then Inl IndexError
        else
          bind_result (broadcast_to3 G (H, W, C)) (\<lambda>g.
            Inr (T\<lparr>at4 := (\<lambda>i' r q k.
                   if i' = i \<and> r < H \<and> q < W \<and> k < C then g r q k
                   else at4 T i' r q k)\<rparr>)))"

text \<open>A number as an array of one cell, and \<open>T[i][p:-p, p:-p, :]\<close> for \<open>p > 0\<close>.\<close>

definition scalar3 :: "real \<Rightarrow> tensor3" where
  "scalar3 x = \<lparr>shape3 = (1, 1, 1), at3 = (\<lambda>a b k. x)\<rparr>"

definition strip_pad :: "tensor4 \<Rightarrow> nat \<Rightarrow> nat \<Rightarrow> tensor3" where
  "strip_pad T i p =
     (case shape4 T of (m, H, W, C) \<Rightarrow>
        \<lparr>shape3 = (H - 2 * p, W - 2 * p, C), at3 = (\<lambda>a b k. at4 T i (a + p) (b + p) k)\<rparr>)"

definition sample3 :: "tensor4 \<Rightarrow> nat \<Rightarrow> tensor3" where
  "sample3 T i =
     (case shape4 T of (m, H, W, C) \<Rightarrow> \<lparr>shape3 = (H, W, C), at3 = (\<lambda>a b k. at4 T i a b k)\<rparr>)"

text \<open>Reading a cache apart.\<close>

definition unpack4 :: "pyobj \<Rightarrow> pyerror + pyobj \<times> pyobj \<times> pyobj \<times> pyobj" where
  "unpack4 x = (case x of Tuple [a, b, c, d] \<Rightarrow> Inr (a, b, c, d) | _ \<Rightarrow> Inl ValueError)"

definition shape_of :: "pyobj \<Rightarrow> pyerror + tensor4" where
  "shape_of x = (case x of Tensor t \<Rightarrow> Inr t | _ \<Rightarrow> Inl AttributeError)"

definition subscript_str :: "pyobj \<Rightarrow> pyerror + conv_hparameters" where
  "subscript_str x =
     (case x of HParams h \<Rightarrow> Inr h | Tensor t \<Rightarrow> Inl IndexError | Tuple xs \<Rightarrow> Inl TypeError)"

text \<open>The four nested loops of \<open>Conv2d.backward\<close>, from \<open>for i in range(m)\<close> to the end.\<close>

definition Conv2d_backward_loops ::
  "tensor4 \<Rightarrow> tensor4 \<Rightarrow> nat \<Rightarrow> nat \<Rightarrow> nat \<Rightarrow> tensor4
     \<Rightarrow> tensor4 \<times> tensor4 \<times> tensor4 \<times> tensor4 \<Rightarrow> pyerror + tensor4 \<times> tensor4 \<times> tensor4" where
  "Conv2d_backward_loops W dA f stride pad A_prev_pad start =
     (case shape4 dA of (m, n_H, n_W, n_C) \<Rightarrow>
      case shape4 A_prev_pad of (m_prev, H_pad, W_pad, C_pad) \<Rightarrow>
        bind_result
          (for_range m (\<lambda>i (dA_prev, dA_prev_pad, dW, db).
             if m_prev \<le> i then Inl IndexError
             else
               bind_result
                 (for_range n_H (\<lambda>h.
                  for_range n_W (\<lambda>w.
                  for_range n_C (\<lambda>c (dA_prev_pad, dW, db).
                    let vert_start = h * stride;
                        vert_end = h * stride + f;
                        horiz_start = w * stride;
                        horiz_end = w * stride + f;
                        a_slice = window3 A_prev_pad i vert_start vert_end horiz_start horiz_end
                    in bind_result (last_axis W c) (\<lambda>Wc.
                       bind_result (iadd_window3 dA_prev_pad i vert_start vert_end horiz_start horiz_end
                                      (scale3 Wc (at4 dA i h w c))) (\<lambda>dA_prev_pad'.
                       bind_result (iadd_last_axis dW c (scale3 a_slice (at4 dA i h w c))) (\<lambda>dW'.
                       bind_result (iadd_last_axis db c (scalar3 (at4 dA i h w c))) (\<lambda>db'.
                         Inr (dA_prev_pad', dW', db'))))))))
                    (dA_prev_pad, dW, db))
                 (\<lambda>(dA_prev_pad', dW', db').
                    bind_result
                      (if pad = 0 then set_sample dA_prev i (sample3 dA_prev_pad' i)
                       else set_sample dA_prev i (strip_pad dA_prev_pad' i pad))
                      (\<lambda>dA_prev'. Inr (dA_prev', dA_prev_pad', dW', db'))))
             start)
          (\<lambda>(dA_prev, dA_prev_pad, dW, db). Inr (dA_prev, dW, db)))"

text \<open>
  \<open>Conv2d.backward\<close>.  It unpacks its cache into four names and calls
  \<open>self.zero_pad(A_prev, pad)\<close>, that is, with one positional argument more than the method takes.
\<close>

definition Conv2d_backward ::
  "conv2d \<Rightarrow> tensor4 \<Rightarrow> pyobj \<Rightarrow> pyerror + tensor4 \<times> tensor4 \<times> tensor4" where
  "Conv2d_backward self dA cache =
     bind_result (unpack4 cache) (\<lambda>(A_prev_obj, W_obj, b_obj, hparameters_obj).
     bind_result (shape_of A_prev_obj) (\<lambda>A_prev.
     bind_result (shape_of W_obj) (\<lambda>W.
     bind_result (subscript_str hparameters_obj) (\<lambda>hparameters.
       case shape4 A_prev of (m0, n_H_prev, n_W_prev, n_C_prev0) \<Rightarrow>
       case shape4 W of (f0, f, n_C_prev, n_C0) \<Rightarrow>
       case shape4 dA of (m, n_H, n_W, n_C) \<Rightarrow>
       let stride = conv_stride hparameters;
           pad = conv_pad hparameters;
           dA_prev = np_zeros4 (m, n_H_prev, n_W_prev, n_C_prev);
           dW = np_zeros4 (f, f, n_C_prev, n_C);
           db = np_zeros4 (1, 1, 1, n_C)
       in bind_result (Conv2d_zero_pad self A_prev [pad]) (\<lambda>A_prev_pad.
          bind_result (Conv2d_zero_pad self dA_prev [pad]) (\<lambda>dA_prev_pad.
            Conv2d_backward_loops W dA f stride pad A_prev_pad
              (dA_prev, dA_prev_pad, dW, db)))))))"

section \<open>ConvNet2D\<close>

record convnet2d =
  cn_in_channels :: int
  cn_out_channels :: int
  cn_num_filters :: "int list"
  cn_filter_sizes :: "int list"
  cn_strides :: "nat list"
  cn_paddings :: "nat list"
  cn_pooling :: "bool list option"
  cn_pool_size :: "nat list option"
  cn_conv_layers :: "conv2d list"
  cn_pooling_layers :: "pooling list"
  cn_fc_weights :: matrix
  cn_fc_biases :: matrix

text \<open>The two \<open>assert\<close> statements of \<open>ConvNet2D.__init__\<close>; \<open>len(None)\<close> is a \<open>TypeError\<close>.\<close>

definition ConvNet2D_asserts ::
  "int list \<Rightarrow> int list \<Rightarrow> nat list \<Rightarrow> nat list \<Rightarrow> bool list option \<Rightarrow> nat list option
     \<Rightarrow> pyerror + unit" where
  "ConvNet2D_asserts num_filters filter_sizes strides paddings pooling pool_size =
     (if \<not> (length num_filters = length filter_sizes \<and> length filter_sizes = length strides \<and>
             length strides = length paddings)
      then Inl AssertionError
      else
        case pooling of
          None \<Rightarrow> Inr ()
        | Some p \<Rightarrow>
            (case pool_size of
               None \<Rightarrow> Inl TypeError
             | Some ps \<Rightarrow> if length p = length ps then Inr () else Inl AssertionError))"

text \<open>
  One pass of the loop over the layers.  \<open>Conv2d(in_channels, num_filters[i],
  filter_sizes[i], strides[i], paddings[i])\<close> binds its fifth argument to \<open>padding_mode\<close> and
  leaves \<open>padding\<close> at its default 0; \<open>Pooling(pool_size[i])\<close> passes no \<open>stride\<close>.
\<close>

definition ConvNet2D_layer ::
  "int list \<Rightarrow> int list \<Rightarrow> nat list \<Rightarrow> nat list \<Rightarrow> bool list option \<Rightarrow> nat list option
     \<Rightarrow> nat \<Rightarrow> rng \<times> int \<times> conv2d list \<times> pooling list
     \<Rightarrow> pyerror + rng \<times> int \<times> conv2d list \<times> pooling list" where
  "ConvNet2D_layer num_filters filter_sizes strides paddings pooling pool_size i st =
     (case st of (s, in_channels, conv_layers, pooling_layers) \<Rightarrow>
        bind_result
          (Conv2d_init s in_channels (num_filters ! i) (filter_sizes ! i) (strides ! i)
             (Inr (paddings ! i)) 0) (\<lambda>(layer, s').
          let conv_layers' = conv_layers @ [layer];
              in_channels' = num_filters ! i
          in case pooling of
               None \<Rightarrow> Inr (s', in_channels', conv_layers', pooling_layers)
             | Some p \<Rightarrow>
                 if length p \<le> i then Inl IndexError
                 else if p ! i then
                   (case pool_size of
                      None \<Rightarrow> Inl TypeError
                    | Some ps \<Rightarrow>
                        if length ps \<le> i then Inl IndexError
                        else
                          bind_result (Pooling_init (ps ! i) None None) (\<lambda>pl.
                            Inr (s', in_channels', conv_layers', pooling_layers @ [pl])))
                 else Inr (s', in_channels', conv_layers', pooling_layers)))"

text \<open>
  \<open>ConvNet2D.__init__\<close>, run in a module namespace \<open>g\<close> with the random generator \<open>s\<close>.
  After the loop the body reads the bare name \<open>X\<close>.
\<close>

definition ConvNet2D_init_in ::
  "namespace \<Rightarrow> rng \<Rightarrow> int \<Rightarrow> int \<Rightarrow> int list \<Rightarrow> int list \<Rightarrow> nat list \<Rightarrow> nat list
     \<Rightarrow> bool list option \<Rightarrow> nat list option \<Rightarrow> pyerror + convnet2d" where
  "ConvNet2D_init_in g s in_channels out_channels num_filters filter_sizes strides paddings
       pooling pool_size =
     bind_result (ConvNet2D_asserts num_filters filter_sizes strides paddings pooling pool_size) (\<lambda>_.
     bind_result
       (for_range (length num_filters)
          (ConvNet2D_layer num_filters filter_sizes strides paddings pooling pool_size)
          (s, in_channels, [], []))
       (\<lambda>(s1, in_channels', conv_layers, pooling_layers).
          bind_result (load_global g ''X'') (\<lambda>X.
            case X of
              PyArray x \<Rightarrow>
                bind_result (randn2 s1 (int (ncols x)) out_channels) (\<lambda>(R, s2).
                  if ncols x = 0 then Inl ZeroDivisionError
                  else
                    bind_result (array_alloc (max_cells s2) [1, out_channels]) (\<lambda>_.
                    Inr \<lparr>cn_in_channels = in_channels,
                         cn_out_channels = out_channels,
                         cn_num_filters = num_filters,
                         cn_filter_sizes = filter_sizes,
                         cn_strides = strides,
                         cn_paddings = paddings,
                         cn_pooling = pooling,
                         cn_pool_size = pool_size,
                         cn_conv_layers = conv_layers,
                         cn_pooling_layers = pooling_layers,
                         cn_fc_weights =
                           R\<lparr>cell := (\<lambda>i j. cell R i j * sqrt (2 / real (ncols x)))\<rparr>,
                         cn_fc_biases =
                           \<lparr>nrows = 1, ncols = nat out_channels, cell = (\<lambda>i j. 0)\<rparr>\<rparr>))
            | _ \<Rightarrow> Inl AttributeError)))"

definition ConvNet2D_init ::
  "rng \<Rightarrow> int \<Rightarrow> int \<Rightarrow> int list \<Rightarrow> int list \<Rightarrow> nat list \<Rightarrow> nat list
     \<Rightarrow> bool list option \<Rightarrow> nat list option \<Rightarrow> pyerror + convnet2d" where
  "ConvNet2D_init = ConvNet2D_init_in module_globals"

text \<open>
  For the examples: a generator that hands out zeros, on a machine that can allocate arrays
  of up to \<open>2\<^sup>2\<^sup>7\<close> cells (one gibibyte of \<open>float64\<close>).
\<close>

definition zero_stream :: rng where
  "zero_stream = \<lparr>stream = (\<lambda>n. 0), max_cells = 2 ^ 27\<rparr>"

text \<open>No pooling layer is asked for among the first \<open>n\<close> layers.\<close>

definition pooling_off :: "bool list option \<Rightarrow> nat \<Rightarrow> bool" where
  "pooling_off pooling n =
     (case pooling of None \<Rightarrow> True | Some p \<Rightarrow> n \<le> length p \<and> \<not> (\<exists>i < n. p ! i))"

section \<open>Notions used to state the properties\<close>

text \<open>
  The window of output position \<open>(h, w)\<close> holds the input cells \<open>(r, q)\<close> with
  \<open>h \<cdot> stride \<le> r < h \<cdot> stride + f\<close> and \<open>w \<cdot> stride \<le> q < w \<cdot> stride + f\<close>; its maximum is
  taken over these \<open>f \<cdot> f\<close> cells of one sample and one channel.
\<close>

definition in_window :: "pool_hparameters \<Rightarrow> nat \<Rightarrow> nat \<Rightarrow> nat \<Rightarrow> nat \<Rightarrow> bool" where
  "in_window hp h w r q =
     (h * pool_stride hp \<le> r \<and> r < h * pool_stride hp + pool_f hp \<and>
      w * pool_stride hp \<le> q \<and> q < w * pool_stride hp + pool_f hp)"

definition window_max :: "tensor4 \<Rightarrow> pool_hparameters \<Rightarrow> nat \<Rightarrow> nat \<Rightarrow> nat \<Rightarrow> nat \<Rightarrow> real" where
  "window_max A hp i h w c =
     Max ((\<lambda>(a, b). at4 A i (h * pool_stride hp + a) (w * pool_stride hp + b) c)
            ` ({..< pool_f hp} \<times> {..< pool_f hp}))"

text \<open>Adding a function of the four indices to every cell of an array.\<close>

definition tadd :: "tensor4 \<Rightarrow> (nat \<Rightarrow> nat \<Rightarrow> nat \<Rightarrow> nat \<Rightarrow> real) \<Rightarrow> tensor4" where
  "tadd T g = T\<lparr>at4 := (\<lambda>i r q c. at4 T i r q c + g i r q c)\<rparr>"

text \<open>What one pass of the loop body of \<open>Pooling.backward\<close> adds to \<open>dA_prev\<close>.\<close>

definition max_contrib ::
  "tensor4 \<Rightarrow> pool_hparameters \<Rightarrow> tensor4 \<Rightarrow> nat \<Rightarrow> nat \<Rightarrow> nat \<Rightarrow> nat
     \<Rightarrow> nat \<Rightarrow> nat \<Rightarrow> nat \<Rightarrow> nat \<Rightarrow> real" where
  "max_contrib A_prev hp dA i h w c =
     (\<lambda>i' r q c'.
        if i' = i \<and> c' = c \<and> in_window hp h w r q \<and>
           at4 A_prev i r q c = window_max A_prev hp i h w c
        then at4 dA i h w c else 0)"

definition avg_contrib ::
  "pool_hparameters \<Rightarrow> tensor4 \<Rightarrow> nat \<Rightarrow> nat \<Rightarrow> nat \<Rightarrow> nat
     \<Rightarrow> nat \<Rightarrow> nat \<Rightarrow> nat \<Rightarrow> nat \<Rightarrow> real" where
  "avg_contrib hp dA i h w c =
     (\<lambda>i' r q c'.
        if i' = i \<and> c' = c \<and> in_window hp h w r q
        then at4 dA i h w c / real (pool_f hp * pool_f hp) else 0)"

text \<open>The shape of the output of a forward pass, or the exception it raised.\<close>

definition output_shape :: "pyerror + tensor4 \<times> 'c \<Rightarrow> pyerror + nat \<times> nat \<times> nat \<times> nat" where
  "output_shape r = (case r of Inl e \<Rightarrow> Inl e | Inr (A, cache) \<Rightarrow> Inr (shape4 A))"

text \<open>
  The output length of one spatial axis as the specification gives it:
  \<open>floor((input_size - kernel_size + 2 \<cdot> padding) / stride) + 1\<close>, over the reals.
\<close>

definition formula_out_dim :: "nat \<Rightarrow> nat \<Rightarrow> nat \<Rightarrow> nat \<Rightarrow> int" where
  "formula_out_dim input_size kernel_size stride padding =
     \<lfloor>real_of_int (int input_size - int kernel_size + 2 * int padding) / real stride\<rfloor> + 1"
lemma bind_result_Inr [simp]: "bind_result (Inr x) f = f x"
  by (simp add: bind_result_def)

lemma bind_result_Inl [simp]: "bind_result (Inl e) f = Inl e"
  by (simp add: bind_result_def)

lemma sum_lessThan_1: "(\<Sum>k < (1::nat). f k) = f 0"
  by simp

lemma sum_lessThan_2: "(\<Sum>k < (2::nat). f k) = f 0 + f 1"
  by (simp add: lessThan_nat_numeral lessThan_Suc add.commute)


section \<open>Loops and names\<close>

lemma for_loop_append:
  "for_loop (xs @ ys) body s = bind_result (for_loop xs body s) (for_loop ys body)"
  by (induction xs arbitrary: s) (auto simp: bind_result_def split: sum.splits)

lemma for_range_0 [simp]: "for_range 0 body s = Inr s"
  by (simp add: for_range_def)

lemma for_range_Suc [simp]:
  "for_range (Suc n) body s = bind_result (for_range n body s) (body n)"
  by (simp add: for_range_def for_loop_append bind_result_def split: sum.splits)

lemma load_global_X: "load_global module_globals ''X'' = Inl (NameError ''X'')"
  by (simp add: load_global_def module_globals_def)

lemma load_global_ReLU: "load_global module_globals ''ReLU'' = Inl (NameError ''ReLU'')"
  by (simp add: load_global_def module_globals_def)

lemma bidx_in_range: "i < n \<Longrightarrow> bidx n i = i"
  by (auto simp: bidx_def)


section \<open>FullyConnected: softmax\<close>

















section \<open>FullyConnected: backward\<close>

lemma np_subtract_same_shape:
  assumes "nrows B = nrows A" "ncols B = ncols A"
  shows "np_subtract A B = Inr \<lparr>nrows = nrows A, ncols = ncols A,
      cell = (\<lambda>i j. cell A (bidx (nrows A) i) (bidx (ncols A) j)
                   - cell B (bidx (nrows A) i) (bidx (ncols A) j))\<rparr>"
  using assms by (simp add: np_subtract_def np_binop_def broadcast_dim_def)

lemma FullyConnected_backward_value:
  assumes "nrows Y = nrows AL" "ncols Y = ncols AL" "ncols X = ncols AL"
    "nrows W = nrows AL" "0 < ncols AL"
  shows "\<exists>dA_prev dW db.
      snd (FullyConnected_backward self AL Y ((X, W, b), Z) learning_rate) = Inr (dA_prev, dW, db) \<and>
      nrows dW = nrows AL \<and> ncols dW = nrows X \<and>
      (\<forall>i < nrows AL. \<forall>j < nrows X.
         cell dW i j = (\<Sum>k < ncols AL. (cell AL i k - cell Y i k) * cell X j k) / real (ncols AL)) \<and>
      nrows db = nrows AL \<and> ncols db = 1 \<and>
      (\<forall>i < nrows AL. cell db i 0 = (\<Sum>k < ncols AL. cell AL i k - cell Y i k) / real (ncols AL)) \<and>
      nrows dA_prev = ncols W \<and> ncols dA_prev = ncols AL \<and>
      (\<forall>j < ncols W. \<forall>k < ncols AL.
         cell dA_prev j k = (\<Sum>i < nrows AL. cell W i j * (cell AL i k - cell Y i k)))"
  using assms
  apply (simp add: FullyConnected_backward_def np_subtract_same_shape np_dot_def transpose_T_def
      np_divide_int_def np_sum_axis1_def Let_def)
  apply (intro conjI allI impI)
    apply (rule sum.cong, simp, simp add: bidx_in_range)
   apply (rule sum.cong, simp, simp add: bidx_in_range)
  apply (rule sum.cong, simp, simp add: bidx_in_range)
  done

lemma softmax_cross_entropy_dZ_example:
  "\<exists>D. np_subtract (np_array2 [[7/10], [3/10]]) (np_array2 [[1], [0]]) = Inr D \<and>
       tolist2 D = [[-3/10], [3/10]]"
  by (simp add: np_subtract_def np_binop_def broadcast_dim_def np_array2_def tolist2_def
      bidx_def upt_rec)

text \<open>
  C7.  \<open>FullyConnected.backward\<close>, called with probabilities \<open>AL\<close> and labels \<open>Y\<close> of one
  shape \<open>(n_y, m)\<close>, \<open>m > 0\<close>, a cached input \<open>X\<close> of shape \<open>(n_x, m)\<close> and a cached weight
  \<open>W\<close> with \<open>n_y\<close> rows, returns \<open>(dA_prev, dW, db)\<close> where, with \<open>dZ = AL - Y\<close>,
  \<open>dW = dZ \<cdot> X\<^sup>T / m\<close>, \<open>db\<close> is the sum of \<open>dZ\<close> along each output unit divided by \<open>m\<close>, and
  \<open>dA_prev = W\<^sup>T \<cdot> dZ\<close>.  The statement \<open>dAL = AL - Y\<close> of the method, on probabilities
  \<open>[0.7, 0.3]\<close> and the one-hot label \<open>[1, 0]\<close>, gives \<open>[-0.3, 0.3]\<close>.
\<close>

theorem FullyConnected_backward_gradients:
  assumes "nrows Y = nrows AL" "ncols Y = ncols AL" "ncols X = ncols AL"
    "nrows W = nrows AL" "0 < ncols AL"
  shows "(\<exists>dA_prev dW db.
      snd (FullyConnected_backward self AL Y ((X, W, b), Z) learning_rate) = Inr (dA_prev, dW, db) \<and>
      nrows dW = nrows AL \<and> ncols dW = nrows X \<and>
      (\<forall>i < nrows AL. \<forall>j < nrows X.
         cell dW i j = (\<Sum>k < ncols AL. (cell AL i k - cell Y i k) * cell X j k) / real (ncols AL)) \<and>
      nrows db = nrows AL \<and> ncols db = 1 \<and>
      (\<forall>i < nrows AL. cell db i 0 = (\<Sum>k < ncols AL. cell AL i k - cell Y i k) / real (ncols AL)) \<and>
      nrows dA_prev = ncols W \<and> ncols dA_prev = ncols AL \<and>
      (\<forall>j < ncols W. \<forall>k < ncols AL.
         cell dA_prev j k = (\<Sum>i < nrows AL. cell W i j * (cell AL i k - cell Y i k)))) \<and>
    (\<exists>D. np_subtract (np_array2 [[7/10], [3/10]]) (np_array2 [[1], [0]]) = Inr D \<and>
         tolist2 D = [[-3/10], [3/10]])"
  using FullyConnected_backward_value[OF assms] softmax_cross_entropy_dZ_example by blast

theorem FullyConnected_backward_gradients_witness:
  "nrows (np_array2 [[1], [0]]) = nrows (np_array2 [[7/10], [3/10]]) \<and>
   ncols (np_array2 [[1], [0]]) = ncols (np_array2 [[7/10], [3/10]]) \<and>
   ncols (np_array2 [[2]]) = ncols (np_array2 [[7/10], [3/10]]) \<and>
   nrows (np_array2 [[1], [2]]) = nrows (np_array2 [[7/10], [3/10]]) \<and>
   0 < ncols (np_array2 [[7/10], [3/10]]) \<and>
   (\<exists>dA_prev dW db.
      snd (FullyConnected_backward
             \<lparr>input_dim = 1, output_dim = 2, fc_W = np_array2 [[1], [2]], fc_b = np_array2 [[0], [0]]\<rparr>
             (np_array2 [[7/10], [3/10]]) (np_array2 [[1], [0]])
             ((np_array2 [[2]], np_array2 [[1], [2]], np_array2 [[0], [0]]), np_array2 [[5], [4]]) 1)
        = Inr (dA_prev, dW, db) \<and>
      tolist2 dW = [[-6/10], [6/10]] \<and> tolist2 db = [[-3/10], [3/10]] \<and>
      tolist2 dA_prev = [[3/10]])"
proof -
  define self where "self = \<lparr>input_dim = 1, output_dim = 2, fc_W = np_array2 [[1], [2]], fc_b = np_array2 [[0], [0]]\<rparr>"
  define AL where "AL = np_array2 [[7/10], [3/10]]"
  define Y where "Y = np_array2 [[1], [0]]"
  define X where "X = np_array2 [[2]]"
  define W where "W = np_array2 [[1], [2]]"
  have h: "nrows Y = nrows AL" "ncols Y = ncols AL" "ncols X = ncols AL"
    "nrows W = nrows AL" "0 < ncols AL"
    by (simp_all add: np_array2_def AL_def Y_def X_def W_def)
  have sh: "nrows AL = 2" "ncols AL = 1" "nrows X = 1" "ncols W = 1"
    by (simp_all add: np_array2_def AL_def Y_def X_def W_def)
  have cells: "cell AL 0 0 = 7/10" "cell AL (Suc 0) 0 = 3/10" "cell Y 0 0 = 1" "cell Y (Suc 0) 0 = 0"
     "cell X 0 0 = 2" "cell W 0 0 = 1" "cell W (Suc 0) 0 = 2"
    by (simp_all add: np_array2_def AL_def Y_def X_def W_def)
  from FullyConnected_backward_gradients[OF h, of self "np_array2 [[0], [0]]" "np_array2 [[5], [4]]" 1]
  have "\<exists>dA_prev dW db.
      snd (FullyConnected_backward self AL Y ((X, W, np_array2 [[0], [0]]), np_array2 [[5], [4]]) 1) = Inr (dA_prev, dW, db) \<and>
      nrows dW = 2 \<and> ncols dW = 1 \<and>
      (\<forall>i < 2. \<forall>j < 1.
         cell dW i j = (\<Sum>k < 1. (cell AL i k - cell Y i k) * cell X j k) / real 1) \<and>
      nrows db = 2 \<and> ncols db = 1 \<and>
      (\<forall>i < 2. cell db i 0 = (\<Sum>k < 1. cell AL i k - cell Y i k) / real 1) \<and>
      nrows dA_prev = 1 \<and> ncols dA_prev = 1 \<and>
      (\<forall>j < 1. \<forall>k < 1.
         cell dA_prev j k = (\<Sum>i < 2. cell W i j * (cell AL i k - cell Y i k)))"
    unfolding sh by (rule conjunct1)
  then obtain dA_prev dW db where r:
    "snd (FullyConnected_backward self AL Y ((X, W, np_array2 [[0], [0]]), np_array2 [[5], [4]]) 1)
       = Inr (dA_prev, dW, db)"
    and s: "nrows dW = 2" "ncols dW = 1" "nrows db = 2" "ncols db = 1" "nrows dA_prev = 1" "ncols dA_prev = 1"
    and dW: "\<forall>i < 2. \<forall>j < 1.
        cell dW i j = (\<Sum>k < 1. (cell AL i k - cell Y i k) * cell X j k) / real 1"
    and db: "\<forall>i < 2. cell db i 0 = (\<Sum>k < 1. cell AL i k - cell Y i k) / real 1"
    and dA: "\<forall>j < 1. \<forall>k < 1.
        cell dA_prev j k = (\<Sum>i < 2. cell W i j * (cell AL i k - cell Y i k))"
    by (elim exE conjE)
  have "cell dW 0 0 = -6/10" "cell dW (Suc 0) 0 = 6/10"
    using dW[rule_format, of 0 0] dW[rule_format, of "Suc 0" 0]
    by (simp_all add: sum_lessThan_1 cells)
  then have "tolist2 dW = [[-6/10], [6/10]]"
    by (simp add: tolist2_def s upt_rec)
  moreover have "cell db 0 0 = -3/10" "cell db (Suc 0) 0 = 3/10"
    using db[rule_format, of 0] db[rule_format, of "Suc 0"]
    by (simp_all add: sum_lessThan_1 cells)
  then have "tolist2 db = [[-3/10], [3/10]]"
    by (simp add: tolist2_def s upt_rec)
  moreover have "cell dA_prev 0 0 = 3/10"
    using dA[rule_format, of 0 0] by (simp add: sum_lessThan_2 cells)
  then have "tolist2 dA_prev = [[3/10]]"
    by (simp add: tolist2_def s upt_rec)
  ultimately show ?thesis using r h unfolding AL_def Y_def X_def W_def self_def by blast
qed

text \<open>
  C9.  Whatever its arguments, and whether it returns or raises, \<open>FullyConnected.backward\<close>
  hands the layer back as it received it: the weight \<open>W\<close> and the bias \<open>b\<close> are unchanged.
  Its outcome is the same for every \<open>learning_rate\<close>, that is, the learning rate is never
  applied.
\<close>

theorem FullyConnected_backward_frame:
  "fst (FullyConnected_backward self AL Y caches learning_rate) = self \<and>
   fc_W (fst (FullyConnected_backward self AL Y caches learning_rate)) = fc_W self \<and>
   fc_b (fst (FullyConnected_backward self AL Y caches learning_rate)) = fc_b self \<and>
   snd (FullyConnected_backward self AL Y caches learning_rate) =
     snd (FullyConnected_backward self AL Y caches learning_rate')"
  by (simp add: FullyConnected_backward_def Let_def split: prod.splits)

section \<open>Conv2d: forward\<close>

lemma broadcast_dim_same [simp]: "broadcast_dim p p = Some p"
  by (simp add: broadcast_dim_def)

lemma broadcast_dim_1 [simp]: "broadcast_dim p (Suc 0) = Some p"
  by (simp add: broadcast_dim_def)

lemma bidx_1 [simp]: "bidx (Suc 0) i = 0"
  by (simp add: bidx_def)

lemma bidx_bidx [simp]: "bidx p (bidx p i) = bidx p i"
  by (simp add: bidx_def)

lemma conv_single_step_value:
  assumes "shape3 slice = (p, q, r)" "shape3 W = (p, q, r)" "shape3 b = (1, 1, 1)"
  shows "Conv2d_conv_single_step slice W b =
     Inr ((\<Sum>i < p. \<Sum>j < q. \<Sum>k < r. at3 slice i j k * at3 W i j k) + real (p * q * r) * at3 b 0 0 0)"
proof -
  have "Conv2d_conv_single_step slice W b =
     Inr (\<Sum>i < p. \<Sum>j < q. \<Sum>k < r.
            at3 slice (bidx p i) (bidx q j) (bidx r k) * at3 W (bidx p i) (bidx q j) (bidx r k) + at3 b 0 0 0)"
    using assms
    by (simp add: Conv2d_conv_single_step_def np_binop3_def np_sum3_def)
  also have "(\<Sum>i < p. \<Sum>j < q. \<Sum>k < r.
            at3 slice (bidx p i) (bidx q j) (bidx r k) * at3 W (bidx p i) (bidx q j) (bidx r k) + at3 b 0 0 0)
     = (\<Sum>i < p. \<Sum>j < q. \<Sum>k < r. at3 slice i j k * at3 W i j k + at3 b 0 0 0)"
    by (intro sum.cong refl) (simp add: bidx_in_range)
  also have "\<dots> = (\<Sum>i < p. \<Sum>j < q. \<Sum>k < r. at3 slice i j k * at3 W i j k) + real (p * q * r) * at3 b 0 0 0"
    by (simp add: sum.distrib algebra_simps)
  finally show ?thesis .
qed

lemma for_range_fails:
  assumes "0 < n" "\<And>x s. \<exists>e. body x s = Inl e"
  shows "\<exists>e. for_range n body s = Inl e"
proof -
  obtain k where n: "n = Suc k" using assms(1) by (cases n) auto
  show ?thesis unfolding n
  proof (cases "for_range k body s")
    case (Inl e)
    then show "\<exists>e. for_range (Suc k) body s = Inl e" by simp
  next
    case (Inr s')
    then show "\<exists>e. for_range (Suc k) body s = Inl e" using assms(2)[of k s'] by simp
  qed
qed

lemma Conv2d_forward_cell_raises:
  "\<exists>e. Conv2d_forward_cell module_globals self f stride A_prev_pad i h w c ZA = Inl e"
  by (auto simp: Conv2d_forward_cell_def load_global_ReLU bind_result_def Let_def
      split: sum.splits prod.splits)

text \<open>
  As the module stands, \<open>Conv2d.forward\<close> returns only an output without cells: once the
  innermost loop body runs, the call ends in an exception.
\<close>

lemma Conv2d_forward_nonempty_raises:
  assumes "shape4 A_prev = (m, H, Wd, C0)" "shape4 (conv_W self) = (f0, f, cp, n_C)"
    "conv_out_dim H f (conv_pad (conv_hparams self)) (conv_stride (conv_hparams self)) = Inr n_H"
    "conv_out_dim Wd f (conv_pad (conv_hparams self)) (conv_stride (conv_hparams self)) = Inr n_W"
    "0 < m" "0 < n_H" "0 < n_W" "0 < n_C"
  shows "\<exists>e. Conv2d_forward self A_prev = Inl e"
proof -
  have pos: "0 < nat n_H" "0 < nat n_W" using assms(6,7) by auto
  have "\<exists>e. for_range m (\<lambda>i.
                 for_range (nat n_H) (\<lambda>h.
                 for_range (nat n_W) (\<lambda>w.
                 for_range n_C (\<lambda>c.
                   Conv2d_forward_cell module_globals self f stride A_prev_pad i h w c))))
                   s0 = Inl e" for stride A_prev_pad s0
    by (intro for_range_fails assms(5,8) pos Conv2d_forward_cell_raises)
  then obtain e where "for_range m (\<lambda>i.
                 for_range (nat n_H) (\<lambda>h.
                 for_range (nat n_W) (\<lambda>w.
                 for_range n_C (\<lambda>c.
                   Conv2d_forward_cell module_globals self f (conv_stride (conv_hparams self))
                     \<lparr>shape4 = (m, H + 2 * conv_pad (conv_hparams self),
                                Wd + 2 * conv_pad (conv_hparams self), C0),
                      at4 = (\<lambda>i r q c.
                        if conv_pad (conv_hparams self) \<le> r \<and> r < conv_pad (conv_hparams self) + H \<and>
                           conv_pad (conv_hparams self) \<le> q \<and> q < conv_pad (conv_hparams self) + Wd
                        then at4 A_prev i (r - conv_pad (conv_hparams self))
                               (q - conv_pad (conv_hparams self)) c
                        else 0)\<rparr> i h w c))))
                   (np_zeros4 (m, nat n_H, nat n_W, n_C), np_zeros4 (m, nat n_H, nat n_W, n_C)) = Inl e"
    by blast
  then show ?thesis
    using assms(1,2,3,4,6,7)
    by (simp add: Conv2d_forward_def Conv2d_forward_in_def Conv2d_zero_pad_def Let_def)
qed

text \<open>
  C1, at an input the code mishandles: one sample of 2 by 2 ones with one channel, one 2 by 2
  filter of ones, bias 1, stride 1, no padding.  The dot product is 4, so the claim's cell is
  \<open>4 + 1 = 5\<close>.  The call raises \<open>NameError\<close> for the bare name \<open>ReLU\<close>; and in a module
  where \<open>ReLU\<close> is bound to \<open>Conv2d.ReLU\<close> the cached pre-activation and the output are
  \<open>4 + 4 \<cdot> 1 = 8\<close>, the bias counted once for each of the four cells of the window.
\<close>

theorem Conv2d_forward_bias_per_window_cell:
  "Conv2d_forward
     \<lparr>conv_in_channels = 1, conv_kernel_size = 2, conv_n_filters = 1,
      conv_hparams = \<lparr>conv_stride = 1, conv_pad = 0\<rparr>,
      conv_W = np_array4 [[[[1]], [[1]]], [[[1]], [[1]]]],
      conv_b = np_array4 [[[[1]]]]\<rparr>
     (np_array4 [[[[1], [1]], [[1], [1]]]]) = Inl (NameError ''ReLU'') \<and>
   (\<exists>A conv_cache Z.
      Conv2d_forward_in (module_globals(''ReLU'' \<mapsto> PyFunction Conv2d_ReLU))
        \<lparr>conv_in_channels = 1, conv_kernel_size = 2, conv_n_filters = 1,
         conv_hparams = \<lparr>conv_stride = 1, conv_pad = 0\<rparr>,
         conv_W = np_array4 [[[[1]], [[1]]], [[[1]], [[1]]]],
         conv_b = np_array4 [[[[1]]]]\<rparr>
        (np_array4 [[[[1], [1]], [[1], [1]]]]) = Inr (A, Tuple [conv_cache, Tensor Z]) \<and>
      tolist4 Z = [[[[8]]]] \<and> tolist4 A = [[[[8]]]])"
  by (simp add: Conv2d_forward_def Conv2d_forward_in_def Conv2d_forward_cell_def np_array4_def
      len_hd_def conv_out_dim_def py_int_def Conv2d_zero_pad_def Let_def load_global_def module_globals_def last_axis_def
      Conv2d_conv_single_step_def np_binop3_def window3_def broadcast_dim_def call_scalar_def
      Conv2d_ReLU_def np_sum3_def bidx_def set4_def tolist4_def np_zeros4_def
      lessThan_nat_numeral lessThan_Suc)

section \<open>Conv2d: backward\<close>

lemma Conv2d_backward_forward_cache:
  "Conv2d_backward self dA (Tuple [Tuple [Tensor A_prev, Tensor W, Tensor b, HParams hp], Tensor Z])
     = Inl ValueError"
  by (simp add: Conv2d_backward_def unpack4_def)

lemma Conv2d_backward_conv_cache:
  "Conv2d_backward self dA (Tuple [Tensor A_prev, Tensor W, Tensor b, HParams hp]) = Inl TypeError"
  by (simp add: Conv2d_backward_def unpack4_def shape_of_def subscript_str_def Conv2d_zero_pad_def
      Let_def split: prod.splits)

text \<open>
  C2, as the code has it.  \<open>Conv2d.backward\<close> raises on every call.  Given the cache that
  \<open>Conv2d.forward\<close> returns, a pair, it fails to unpack it into four names
  (\<open>ValueError\<close>); given the four-part \<open>conv_cache\<close> alone, it fails at
  \<open>self.zero_pad(A_prev, pad)\<close>, a method of one argument (\<open>TypeError\<close>).  No gradient is
  ever returned.
\<close>

theorem Conv2d_backward_always_raises:
  "(\<exists>e. Conv2d_backward self dA cache = Inl e) \<and>
   Conv2d_backward self dA (Tuple [Tuple [Tensor A_prev, Tensor W, Tensor b, HParams hp], Tensor Z])
     = Inl ValueError \<and>
   Conv2d_backward self dA (Tuple [Tensor A_prev, Tensor W, Tensor b, HParams hp]) = Inl TypeError"
proof (intro conjI)
  show "\<exists>e. Conv2d_backward self dA cache = Inl e"
    by (auto simp: Conv2d_backward_def Conv2d_zero_pad_def Let_def bind_result_def
        split: sum.splits prod.splits)
qed (rule Conv2d_backward_forward_cache, rule Conv2d_backward_conv_cache)

section \<open>ConvNet2D: construction\<close>

lemma ConvNet2D_init_never_returns:
  "\<exists>e. ConvNet2D_init s ic oc nf fs st pd pooling ps = Inl e"
  unfolding ConvNet2D_init_def ConvNet2D_init_in_def load_global_X
  by (auto simp: bind_result_def split: sum.splits prod.splits)

lemma array_alloc_errors:
  "array_alloc cap dims = Inl e \<Longrightarrow> e = ValueError \<or> e = MemoryError"
  by (auto simp: array_alloc_def split: if_splits)

lemma randn4_returns:
  assumes "array_alloc (max_cells s) [d0, d1, d2, d3] = Inr ()"
  shows "\<exists>T s'. randn4 s d0 d1 d2 d3 = Inr (T, s') \<and> max_cells s' = max_cells s"
  using assms by (simp add: randn4_def Let_def)

lemma randn4_errors:
  "randn4 s d0 d1 d2 d3 = Inl e \<Longrightarrow> e = ValueError \<or> e = MemoryError"
  by (cases "array_alloc (max_cells s) [d0, d1, d2, d3]")
     (auto simp: randn4_def Let_def dest: array_alloc_errors)

lemma randn4_capacity:
  "randn4 s d0 d1 d2 d3 = Inr (T, s') \<Longrightarrow> max_cells s' = max_cells s"
  by (cases "array_alloc (max_cells s) [d0, d1, d2, d3]") (auto simp: randn4_def Let_def)

lemma Conv2d_init_returns:
  assumes "array_alloc (max_cells s) [k, k, ic, oc] = Inr ()"
    and "array_alloc (max_cells s) [1, 1, 1, oc] = Inr ()"
  shows "\<exists>layer s'. Conv2d_init s ic oc k stride pm padding = Inr (layer, s') \<and>
           max_cells s' = max_cells s"
proof -
  obtain W s1 where W: "randn4 s k k ic oc = Inr (W, s1)" "max_cells s1 = max_cells s"
    using randn4_returns[OF assms(1)] by blast
  obtain b s2 where b: "randn4 s1 1 1 1 oc = Inr (b, s2)" "max_cells s2 = max_cells s1"
    using randn4_returns[of s1 1 1 1 oc] assms(2) W(2) by auto
  show ?thesis
    using W b by (simp add: Conv2d_init_def)
qed

lemma Conv2d_init_errors:
  assumes "Conv2d_init s ic oc k stride pm padding = Inl e"
  shows "e = ValueError \<or> e = MemoryError"
proof (cases "randn4 s k k ic oc")
  case (Inl e')
  then show ?thesis using assms randn4_errors[OF Inl] by (simp add: Conv2d_init_def)
next
  case (Inr r)
  obtain W s1 where r: "r = (W, s1)" by (cases r)
  show ?thesis
  proof (cases "randn4 s1 1 1 1 oc")
    case (Inl e')
    then show ?thesis
      using assms Inr r randn4_errors[OF Inl] by (simp add: Conv2d_init_def)
  next
    case (Inr r')
    then show ?thesis
      using assms \<open>randn4 s k k ic oc = Inr r\<close> r
      by (simp add: Conv2d_init_def split: prod.splits)
  qed
qed

lemma ConvNet2D_layer_returns:
  assumes "array_alloc (max_cells s) [fs ! i, fs ! i, ic, nf ! i] = Inr ()"
    and "array_alloc (max_cells s) [1, 1, 1, nf ! i] = Inr ()"
    and "pooling_off pooling (Suc i)"
  shows "\<exists>s' cl'. ConvNet2D_layer nf fs st pd pooling ps i (s, ic, cl, pl) = Inr (s', nf ! i, cl', pl) \<and>
           max_cells s' = max_cells s"
proof -
  obtain layer s' where
    "Conv2d_init s ic (nf ! i) (fs ! i) (st ! i) (Inr (pd ! i)) 0 = Inr (layer, s')"
    "max_cells s' = max_cells s"
    using Conv2d_init_returns[OF assms(1,2)] by blast
  then show ?thesis
    using assms(3)
    by (auto simp: ConvNet2D_layer_def pooling_off_def Let_def split: option.splits)
qed

lemma ConvNet2D_layers_return:
  assumes "\<forall>i < n. array_alloc (max_cells s) [fs ! i, fs ! i, (ic # nf) ! i, nf ! i] = Inr () \<and>
                  array_alloc (max_cells s) [1, 1, 1, nf ! i] = Inr ()"
    and "pooling_off pooling n"
  shows "\<exists>s' cl'. for_range n (ConvNet2D_layer nf fs st pd pooling ps) (s, ic, [], [])
            = Inr (s', (ic # nf) ! n, cl', []) \<and> max_cells s' = max_cells s"
  using assms
proof (induction n)
  case 0
  then show ?case by simp
next
  case (Suc n)
  have off: "pooling_off pooling n"
    using Suc.prems(2) by (auto simp: pooling_off_def split: option.splits)
  have "\<exists>s' cl'. for_range n (ConvNet2D_layer nf fs st pd pooling ps) (s, ic, [], [])
            = Inr (s', (ic # nf) ! n, cl', []) \<and> max_cells s' = max_cells s"
    using Suc.prems(1) off by (intro Suc.IH) auto
  then obtain s' cl' where r:
    "for_range n (ConvNet2D_layer nf fs st pd pooling ps) (s, ic, [], []) = Inr (s', (ic # nf) ! n, cl', [])"
    "max_cells s' = max_cells s"
    by blast
  have a: "array_alloc (max_cells s') [fs ! n, fs ! n, (ic # nf) ! n, nf ! n] = Inr ()"
    "array_alloc (max_cells s') [1, 1, 1, nf ! n] = Inr ()"
    using Suc.prems(1) r(2) by auto
  obtain s'' cl'' where
    "ConvNet2D_layer nf fs st pd pooling ps n (s', (ic # nf) ! n, cl', []) = Inr (s'', nf ! n, cl'', [])"
    "max_cells s'' = max_cells s'"
    using ConvNet2D_layer_returns[OF a Suc.prems(2)] by blast
  then show ?case using r by simp
qed

lemma ConvNet2D_init_NameError:
  assumes "ConvNet2D_asserts nf fs st pd pooling ps = Inr ()"
    and "\<forall>i < length nf. array_alloc (max_cells s) [fs ! i, fs ! i, (ic # nf) ! i, nf ! i] = Inr () \<and>
                  array_alloc (max_cells s) [1, 1, 1, nf ! i] = Inr ()"
    and "pooling_off pooling (length nf)"
  shows "ConvNet2D_init s ic oc nf fs st pd pooling ps = Inl (NameError ''X'')"
proof -
  obtain s' cl' where
    "for_range (length nf) (ConvNet2D_layer nf fs st pd pooling ps) (s, ic, [], [])
       = Inr (s', (ic # nf) ! length nf, cl', [])"
    using ConvNet2D_layers_return[OF assms(2,3)] by blast
  then show ?thesis
    unfolding ConvNet2D_init_def ConvNet2D_init_in_def load_global_X using assms(1)
    by simp
qed

text \<open>The loop over the layers never raises a \<open>NameError\<close>, and a requested pooling layer ends it.\<close>

lemma ConvNet2D_layer_errors:
  assumes "ConvNet2D_layer nf fs st pd pooling ps i st0 = Inl e"
  shows "e = ValueError \<or> e = MemoryError \<or> e = IndexError \<or> e = TypeError"
proof -
  obtain s ic cl pl where st0: "st0 = (s, ic, cl, pl)" by (cases st0)
  show ?thesis
  proof (cases "Conv2d_init s ic (nf ! i) (fs ! i) (st ! i) (Inr (pd ! i)) 0")
    case (Inl e')
    then show ?thesis
      using assms st0 Conv2d_init_errors[OF Inl] by (auto simp: ConvNet2D_layer_def)
  next
    case (Inr r)
    then show ?thesis
      using assms st0
      by (auto simp: ConvNet2D_layer_def Let_def Pooling_init_def
          split: prod.splits option.splits if_splits)
  qed
qed

lemma ConvNet2D_layer_flag_raises:
  assumes "pooling = Some p" "i < length p" "p ! i"
  shows "\<exists>e. ConvNet2D_layer nf fs st pd pooling ps i st0 = Inl e"
proof -
  obtain s ic cl pl where st0: "st0 = (s, ic, cl, pl)" by (cases st0)
  show ?thesis
    using assms st0
    by (cases "Conv2d_init s ic (nf ! i) (fs ! i) (st ! i) (Inr (pd ! i)) 0")
       (auto simp: ConvNet2D_layer_def Let_def Pooling_init_def split: prod.splits option.splits)
qed

lemma for_range_Inl_pass:
  assumes "for_range n body s = Inl e"
  shows "\<exists>x t. x < n \<and> body x t = Inl e"
  using assms
proof (induction n)
  case 0
  then show ?case by simp
next
  case (Suc n)
  show ?case
  proof (cases "for_range n body s")
    case (Inl e')
    then have "e' = e" using Suc.prems by simp
    then obtain x t where "x < n" "body x t = Inl e" using Suc.IH Inl by auto
    then show ?thesis using less_Suc_eq by blast
  next
    case (Inr t)
    then have "body n t = Inl e" using Suc.prems by simp
    then show ?thesis by blast
  qed
qed

lemma for_range_Inr_pass:
  assumes "for_range n body s = Inr s'" "x < n"
  shows "\<exists>t t'. body x t = Inr t'"
  using assms
proof (induction n arbitrary: s')
  case 0
  then show ?case by simp
next
  case (Suc n)
  from Suc.prems(1) obtain t where t: "for_range n body s = Inr t" "body n t = Inr s'"
    by (cases "for_range n body s") auto
  show ?case
  proof (cases "x = n")
    case True
    then show ?thesis using t(2) by blast
  next
    case False
    then have "x < n" using Suc.prems(2) by simp
    then show ?thesis using Suc.IH[OF t(1)] by blast
  qed
qed

lemma ConvNet2D_init_flag_not_NameError:
  assumes "pooling = Some p" "i < length nf" "i < length p" "p ! i"
  shows "ConvNet2D_init s ic oc nf fs st pd pooling ps \<noteq> Inl (NameError ''X'')"
proof
  assume ne: "ConvNet2D_init s ic oc nf fs st pd pooling ps = Inl (NameError ''X'')"
  let ?loop = "for_range (length nf) (ConvNet2D_layer nf fs st pd pooling ps) (s, ic, [], [])"
  show False
  proof (cases ?loop)
    case (Inl e)
    obtain x t where "ConvNet2D_layer nf fs st pd pooling ps x t = Inl e"
      using for_range_Inl_pass[OF Inl] by blast
    then have e: "e = ValueError \<or> e = MemoryError \<or> e = IndexError \<or> e = TypeError"
      by (rule ConvNet2D_layer_errors)
    have "ConvNet2D_init s ic oc nf fs st pd pooling ps = Inl e \<or>
          ConvNet2D_init s ic oc nf fs st pd pooling ps = Inl AssertionError \<or>
          ConvNet2D_init s ic oc nf fs st pd pooling ps = Inl TypeError"
      using Inl
      by (auto simp: ConvNet2D_init_def ConvNet2D_init_in_def ConvNet2D_asserts_def
          split: option.splits)
    with ne e show False by auto
  next
    case (Inr r)
    obtain t t' where "ConvNet2D_layer nf fs st pd pooling ps i t = Inr t'"
      using for_range_Inr_pass[OF Inr assms(2)] by blast
    then show False
      using ConvNet2D_layer_flag_raises[OF assms(1,3,4), of nf fs st pd ps t] by simp
  qed
qed

lemma ConvNet2D_asserts_AssertionError_iff:
  "ConvNet2D_asserts nf fs st pd pooling ps = Inl AssertionError \<longleftrightarrow>
     \<not> (length nf = length fs \<and> length fs = length st \<and> length st = length pd) \<or>
     (\<exists>p q. pooling = Some p \<and> ps = Some q \<and> length p \<noteq> length q)"
  by (auto simp: ConvNet2D_asserts_def split: option.splits)

text \<open>
  C3, as the code has it.  Every call of \<open>ConvNet2D.__init__\<close> raises, so no instance is ever
  constructed.  The exception is the \<open>NameError\<close> of the unbound name \<open>X\<close> when the loop over
  the layers completes: the two assertions pass, numpy can allocate the filter bank and the
  bias of every layer (no negative size, none too large), and no pooling layer is asked for
  (\<open>pooling\<close> is \<open>None\<close>, or holds a false flag for every layer).  A call that asks for a
  pooling layer never raises that \<open>NameError\<close>: the loop ends before \<open>X\<close> is read.
\<close>

theorem ConvNet2D_init_always_raises:
  "(\<exists>e. ConvNet2D_init s ic oc nf fs st pd pooling ps = Inl e) \<and>
   (ConvNet2D_asserts nf fs st pd pooling ps = Inr () \<and>
    (\<forall>i < length nf.
       array_alloc (max_cells s) [fs ! i, fs ! i, (ic # nf) ! i, nf ! i] = Inr () \<and>
       array_alloc (max_cells s) [1, 1, 1, nf ! i] = Inr ()) \<and>
    (pooling = None \<or>
     (\<exists>p. pooling = Some p \<and> length nf \<le> length p \<and> (\<forall>i < length nf. \<not> p ! i)))
    \<longrightarrow> ConvNet2D_init s ic oc nf fs st pd pooling ps = Inl (NameError ''X'')) \<and>
   ((\<exists>p i. pooling = Some p \<and> i < length nf \<and> i < length p \<and> p ! i)
    \<longrightarrow> ConvNet2D_init s ic oc nf fs st pd pooling ps \<noteq> Inl (NameError ''X''))"
proof (intro conjI impI)
  show "\<exists>e. ConvNet2D_init s ic oc nf fs st pd pooling ps = Inl e"
    by (rule ConvNet2D_init_never_returns)
next
  assume h: "ConvNet2D_asserts nf fs st pd pooling ps = Inr () \<and>
    (\<forall>i < length nf.
       array_alloc (max_cells s) [fs ! i, fs ! i, (ic # nf) ! i, nf ! i] = Inr () \<and>
       array_alloc (max_cells s) [1, 1, 1, nf ! i] = Inr ()) \<and>
    (pooling = None \<or>
     (\<exists>p. pooling = Some p \<and> length nf \<le> length p \<and> (\<forall>i < length nf. \<not> p ! i)))"
  then have off: "pooling_off pooling (length nf)"
    by (auto simp: pooling_off_def)
  from h have a: "ConvNet2D_asserts nf fs st pd pooling ps = Inr ()" by (rule conjunct1)
  from h have b: "\<forall>i < length nf.
       array_alloc (max_cells s) [fs ! i, fs ! i, (ic # nf) ! i, nf ! i] = Inr () \<and>
       array_alloc (max_cells s) [1, 1, 1, nf ! i] = Inr ()"
    by (rule conjunct2[THEN conjunct1])
  show "ConvNet2D_init s ic oc nf fs st pd pooling ps = Inl (NameError ''X'')"
    by (rule ConvNet2D_init_NameError[OF a b off])
next
  assume "\<exists>p i. pooling = Some p \<and> i < length nf \<and> i < length p \<and> p ! i"
  then obtain p i where "pooling = Some p" "i < length nf" "i < length p" "p ! i" by blast
  then show "ConvNet2D_init s ic oc nf fs st pd pooling ps \<noteq> Inl (NameError ''X'')"
    by (rule ConvNet2D_init_flag_not_NameError)
qed

theorem ConvNet2D_init_always_raises_witness:
  "ConvNet2D_asserts [8, 16] [3, 3] [1, 1] [0, 0] None None = Inr () \<and>
   array_alloc (max_cells zero_stream) [3, 3, 1, 8] = Inr () \<and>
   array_alloc (max_cells zero_stream) [1, 1, 1, 8] = Inr () \<and>
   array_alloc (max_cells zero_stream) [3, 3, 8, 16] = Inr () \<and>
   array_alloc (max_cells zero_stream) [1, 1, 1, 16] = Inr () \<and>
   ConvNet2D_init zero_stream 1 10 [8, 16] [3, 3] [1, 1] [0, 0] None None = Inl (NameError ''X'')"
proof -
  have a: "ConvNet2D_asserts [8, 16] [3, 3] [1, 1] [0, 0] None None = Inr ()"
    by (simp add: ConvNet2D_asserts_def)
  have al: "array_alloc (max_cells zero_stream) [3, 3, 1, 8] = Inr ()"
    "array_alloc (max_cells zero_stream) [1, 1, 1, 8] = Inr ()"
    "array_alloc (max_cells zero_stream) [3, 3, 8, 16] = Inr ()"
    "array_alloc (max_cells zero_stream) [1, 1, 1, 16] = Inr ()"
    by (simp_all add: array_alloc_def intp_max_def zero_stream_def)
  have b: "array_alloc (max_cells zero_stream)
             [[3, 3] ! i, [3, 3] ! i, (1 # [8, 16]) ! i, [8, 16] ! i] = Inr () \<and>
           array_alloc (max_cells zero_stream) [1, 1, 1, [8, 16] ! i] = Inr ()"
    if "i < length [8, 16 :: int]" for i
  proof -
    from that have "i = 0 \<or> i = 1" by auto
    then show ?thesis using al by auto
  qed
  have c: "ConvNet2D_asserts [8, 16] [3, 3] [1, 1] [0, 0] None None = Inr () \<and>
    (\<forall>i < length [8, 16 :: int].
       array_alloc (max_cells zero_stream)
         [[3, 3] ! i, [3, 3] ! i, (1 # [8, 16]) ! i, [8, 16] ! i] = Inr () \<and>
       array_alloc (max_cells zero_stream) [1, 1, 1, [8, 16] ! i] = Inr ()) \<and>
    ((None :: bool list option) = None \<or>
     (\<exists>p. (None :: bool list option) = Some p \<and> length [8, 16 :: int] \<le> length p \<and>
          (\<forall>i < length [8, 16 :: int]. \<not> p ! i)))"
  proof (intro conjI allI impI disjI1)
    show "ConvNet2D_asserts [8, 16] [3, 3] [1, 1] [0, 0] None None = Inr ()" by (rule a)
    show "array_alloc (max_cells zero_stream)
            [[3, 3] ! i, [3, 3] ! i, (1 # [8, 16]) ! i, [8, 16] ! i] = Inr ()"
      if "i < length [8, 16 :: int]" for i
      using b[OF that] by (rule conjunct1)
    show "array_alloc (max_cells zero_stream) [1, 1, 1, [8, 16] ! i] = Inr ()"
      if "i < length [8, 16 :: int]" for i
      using b[OF that] by (rule conjunct2)
    show "(None :: bool list option) = None" by (rule refl)
  qed
  have "ConvNet2D_init zero_stream 1 10 [8, 16] [3, 3] [1, 1] [0, 0] None None = Inl (NameError ''X'')"
    by (rule ConvNet2D_init_always_raises[THEN conjunct2, THEN conjunct1, rule_format, OF c])
  with a al show ?thesis by (intro conjI)
qed

text \<open>
  A call that passes both assertions and asks for a pooling layer does not reach the name
  \<open>X\<close>: \<open>Pooling(pool_size[i])\<close> lacks the argument \<open>stride\<close>.
\<close>

theorem ConvNet2D_init_pooling_TypeError:
  "ConvNet2D_asserts [8] [3] [1] [0] (Some [True]) (Some [2]) = Inr () \<and>
   ConvNet2D_init zero_stream 1 10 [8] [3] [1] [0] (Some [True]) (Some [2]) = Inl TypeError"
  by (simp add: ConvNet2D_asserts_def ConvNet2D_init_def ConvNet2D_init_in_def ConvNet2D_layer_def
      Conv2d_init_def randn4_def array_alloc_def intp_max_def zero_stream_def Let_def
      Pooling_init_def)

text \<open>A size that numpy cannot index is refused inside the loop, before \<open>X\<close> is read.\<close>

lemma ConvNet2D_init_oversized_ValueError:
  "ConvNet2D_init zero_stream 1 10 [9223372036854775808] [3] [1] [0] None None = Inl ValueError"
  by (simp add: ConvNet2D_asserts_def ConvNet2D_init_def ConvNet2D_init_in_def ConvNet2D_layer_def
      Conv2d_init_def randn4_def array_alloc_def intp_max_def zero_stream_def Let_def)

text \<open>
  C10, at an input the code mishandles.  Two layers, one pooling flag and one pool size: both
  assertions pass (the second compares the flags with \<open>pool_size\<close>, not with the layers),
  the first layer is built, and the second pass of the loop ends in the \<open>IndexError\<close> of
  \<open>pooling[1]\<close>.
\<close>

theorem ConvNet2D_init_short_pooling_IndexError:
  "ConvNet2D_asserts [8, 16] [3, 3] [1, 1] [0, 0] (Some [False]) (Some [2]) = Inr () \<and>
   ConvNet2D_init zero_stream 1 10 [8, 16] [3, 3] [1, 1] [0, 0] (Some [False]) (Some [2])
     = Inl IndexError"
  by (simp add: ConvNet2D_asserts_def ConvNet2D_init_def ConvNet2D_init_in_def ConvNet2D_layer_def
      Conv2d_init_def randn4_def array_alloc_def intp_max_def zero_stream_def Let_def
      Pooling_init_def)

text \<open>With more flags than layers nothing is reported either: the call ends at the name \<open>X\<close>.\<close>

lemma ConvNet2D_init_long_pooling_NameError:
  "ConvNet2D_asserts [8] [3] [1] [0] (Some [False, False]) (Some [2, 2]) = Inr () \<and>
   ConvNet2D_init zero_stream 1 10 [8] [3] [1] [0] (Some [False, False]) (Some [2, 2])
     = Inl (NameError ''X'')"
  by (simp add: ConvNet2D_asserts_def ConvNet2D_init_def ConvNet2D_init_in_def ConvNet2D_layer_def
      Conv2d_init_def randn4_def array_alloc_def intp_max_def zero_stream_def Let_def
      Pooling_init_def load_global_X)

section \<open>Pooling: backward\<close>

lemma shape4_tadd [simp]: "shape4 (tadd T g) = shape4 T"
  by (simp add: tadd_def)

lemma at4_tadd [simp]: "at4 (tadd T g) i r q c = at4 T i r q c + g i r q c"
  by (simp add: tadd_def)

lemma tadd_zero: "tadd T (\<lambda>i r q c. 0) = T"
  by (simp add: tadd_def)

lemma tadd_tadd: "tadd (tadd T g) g' = tadd T (\<lambda>i r q c. g i r q c + g' i r q c)"
  by (simp add: tadd_def add.assoc)

lemma for_range_tadd:
  assumes step: "\<And>x T. x < n \<Longrightarrow> shape4 T = s \<Longrightarrow> body x T = Inr (tadd T (g x))"
    and sh: "shape4 T = s"
  shows "for_range n body T = Inr (tadd T (\<lambda>i r q c. \<Sum>x < n. g x i r q c))"
  using step
proof (induction n)
  case 0
  then show ?case by (simp add: tadd_zero)
next
  case (Suc n)
  have "for_range n body T = Inr (tadd T (\<lambda>i r q c. \<Sum>x < n. g x i r q c))"
    using Suc.prems by (intro Suc.IH) auto
  moreover have "body n (tadd T (\<lambda>i r q c. \<Sum>x < n. g x i r q c))
     = Inr (tadd (tadd T (\<lambda>i r q c. \<Sum>x < n. g x i r q c)) (g n))"
    using Suc.prems[of n] sh by simp
  ultimately show ?case by (simp add: tadd_tadd)
qed

lemma slice_hw_fit:
  assumes "shape4 A = (m, H, W, C)" "vs + f \<le> H" "hs + f \<le> W"
  shows "slice_hw A i vs (vs + f) hs (hs + f) c =
     \<lparr>nrows = f, ncols = f, cell = (\<lambda>a b. at4 A i (vs + a) (hs + b) c)\<rparr>"
  using assms by (simp add: slice_hw_def min_def)

lemma np_max_window:
  assumes "0 < pool_f hp"
  shows "np_max \<lparr>nrows = pool_f hp, ncols = pool_f hp,
                 cell = (\<lambda>a b. at4 A i (h * pool_stride hp + a) (w * pool_stride hp + b) c)\<rparr>
         = Inr (window_max A hp i h w c)"
  using assms by (simp add: np_max_def window_max_def)

lemma max_cell:
  assumes "pool_mode self = ''max''" "shape4 A_prev = (m, H, W, C)" "shape4 T = (m, H, W, C)"
    "c < C" "0 < pool_f hp" "h * pool_stride hp + pool_f hp \<le> H" "w * pool_stride hp + pool_f hp \<le> W"
  shows "Pooling_backward_cell self hp A_prev dA i h w c T = Inr (tadd T (max_contrib A_prev hp dA i h w c))"
proof -
  have eq: "add_window T i (h * pool_stride hp) (h * pool_stride hp + pool_f hp)
       (w * pool_stride hp) (w * pool_stride hp + pool_f hp) c
       (\<lambda>a b. at4 dA i h w c * (if at4 A_prev i (h * pool_stride hp + a) (w * pool_stride hp + b) c = window_max A_prev hp i h w c then 1 else 0))
     = tadd T (max_contrib A_prev hp dA i h w c)"
    using assms(3,6,7)
    by (auto simp: add_window_def tadd_def max_contrib_def in_window_def fun_eq_iff min_def
        intro!: arg_cong[where f="\<lambda>f. at4_update f T"])
  show ?thesis
    using assms(1,2,4)
    by (simp add: Pooling_backward_cell_def Let_def np_max_window[OF assms(5)]
        slice_hw_fit[OF assms(2,6,7)] eq)
qed


lemma sum_delta_conj:
  assumes "c < (C::nat)"
  shows "(\<Sum>c' < C. if c' = c \<and> Q c' then f c' else 0) = (if Q c then f c else (0::real))"
proof -
  have "(\<Sum>c' < C. if c' = c \<and> Q c' then f c' else 0) = (\<Sum>c' < C. if c' = c then (if Q c then f c else 0) else 0)"
    by (intro sum.cong refl) auto
  also have "\<dots> = (if Q c then f c else 0)"
    using assms sum.delta[of "{..< C}" c "\<lambda>_. if Q c then f c else 0"] by simp
  finally show ?thesis .
qed

lemma sum4_collapse:
  assumes "i < (m::nat)" "c < (C::nat)"
  shows "(\<Sum>i' < m. \<Sum>h < nH. \<Sum>w < nW. \<Sum>c' < C.
            if i = i' \<and> c = c' \<and> P i' c' h w then v i' h w c' else 0)
         = (\<Sum>h < nH. \<Sum>w < nW. if P i c h w then v i h w c else (0::real))"
proof -
  have inner: "(\<Sum>c' < C. if i = i' \<and> c = c' \<and> P i' c' h w then v i' h w c' else 0)
       = (if i' = i then (if P i c h w then v i h w c else 0) else 0)" for i' h w
  proof (cases "i' = i")
    case True
    have "(\<Sum>c' < C. if i = i' \<and> c = c' \<and> P i' c' h w then v i' h w c' else 0)
        = (\<Sum>c' < C. if c' = c \<and> P i c' h w then v i h w c' else 0)"
      using True by (intro sum.cong refl) auto
    then show ?thesis
      using True sum_delta_conj[OF assms(2), of "\<lambda>c'. P i c' h w" "\<lambda>c'. v i h w c'"]
      by simp
  next
    case False
    then show ?thesis by auto
  qed
  have "(\<Sum>i' < m. \<Sum>h < nH. \<Sum>w < nW. \<Sum>c' < C.
            if i = i' \<and> c = c' \<and> P i' c' h w then v i' h w c' else 0)
      = (\<Sum>i' < m. if i' = i then (\<Sum>h < nH. \<Sum>w < nW. if P i c h w then v i h w c else 0) else 0)"
    unfolding inner by (intro sum.cong refl) auto
  also have "\<dots> = (\<Sum>h < nH. \<Sum>w < nW. if P i c h w then v i h w c else 0)"
    using assms(1)
      sum.delta[of "{..< m}" i "\<lambda>_. \<Sum>h < nH. \<Sum>w < nW. if P i c h w then v i h w c else 0"]
    by simp
  finally show ?thesis .
qed

lemma Pooling_backward_max_tadd:
  assumes mode: "pool_mode self = ''max''"
    and shA: "shape4 A_prev = (m, H, W, C)" and shD: "shape4 dA = (m, n_H, n_W, C)"
    and f: "0 < pool_f hp"
    and fh: "\<And>h. h < n_H \<Longrightarrow> h * pool_stride hp + pool_f hp \<le> H"
    and fw: "\<And>w. w < n_W \<Longrightarrow> w * pool_stride hp + pool_f hp \<le> W"
  shows "Pooling_backward self dA (A_prev, hp) =
     Inr (tadd (np_zeros4 (m, H, W, C))
           (\<lambda>i' r q c'. \<Sum>i < m. \<Sum>h < n_H. \<Sum>w < n_W. \<Sum>c < C.
               max_contrib A_prev hp dA i h w c i' r q c'))"
proof -
  have c_loop: "for_range C (Pooling_backward_cell self hp A_prev dA i h w) T
      = Inr (tadd T (\<lambda>i' r q c'. \<Sum>c < C. max_contrib A_prev hp dA i h w c i' r q c'))"
    if "h < n_H" "w < n_W" "shape4 T = (m, H, W, C)" for i h w T
    by (rule for_range_tadd[where s = "(m, H, W, C)" and g = "max_contrib A_prev hp dA i h w"])
       (use that in \<open>auto intro!: max_cell[OF mode shA _ _ f fh fw]\<close>)
  have w_loop: "for_range n_W (\<lambda>w. for_range C (Pooling_backward_cell self hp A_prev dA i h w)) T
      = Inr (tadd T (\<lambda>i' r q c'. \<Sum>w < n_W. \<Sum>c < C. max_contrib A_prev hp dA i h w c i' r q c'))"
    if "h < n_H" "shape4 T = (m, H, W, C)" for i h T
    by (rule for_range_tadd[where s = "(m, H, W, C)"
          and g = "\<lambda>w i' r q c'. \<Sum>c < C. max_contrib A_prev hp dA i h w c i' r q c'"])
       (use that in \<open>auto intro!: c_loop\<close>)
  have h_loop: "for_range n_H (\<lambda>h. for_range n_W (\<lambda>w. for_range C (Pooling_backward_cell self hp A_prev dA i h w))) T
      = Inr (tadd T (\<lambda>i' r q c'. \<Sum>h < n_H. \<Sum>w < n_W. \<Sum>c < C. max_contrib A_prev hp dA i h w c i' r q c'))"
    if "shape4 T = (m, H, W, C)" for i T
    by (rule for_range_tadd[where s = "(m, H, W, C)"
          and g = "\<lambda>h i' r q c'. \<Sum>w < n_W. \<Sum>c < C. max_contrib A_prev hp dA i h w c i' r q c'"])
       (use that in \<open>auto intro!: w_loop\<close>)
  have i_loop: "for_range m (\<lambda>i dA_prev. if m \<le> i then Inl IndexError
          else for_range n_H (\<lambda>h. for_range n_W (\<lambda>w. for_range C (Pooling_backward_cell self hp A_prev dA i h w))) dA_prev) T
      = Inr (tadd T (\<lambda>i' r q c'. \<Sum>i < m. \<Sum>h < n_H. \<Sum>w < n_W. \<Sum>c < C. max_contrib A_prev hp dA i h w c i' r q c'))"
    if "shape4 T = (m, H, W, C)" for T
    by (rule for_range_tadd[where s = "(m, H, W, C)"
          and g = "\<lambda>i i' r q c'. \<Sum>h < n_H. \<Sum>w < n_W. \<Sum>c < C. max_contrib A_prev hp dA i h w c i' r q c'"])
       (use that in \<open>auto intro!: h_loop\<close>)
  show ?thesis
    by (simp add: Pooling_backward_def shA shD i_loop np_zeros4_def)
qed


lemma Pooling_backward_max_value:
  assumes mode: "pool_mode self = ''max''"
    and shA: "shape4 A_prev = (m, H, W, C)" and shD: "shape4 dA = (m, n_H, n_W, C)"
    and f: "0 < pool_f hp"
    and fh: "\<And>h. h < n_H \<Longrightarrow> h * pool_stride hp + pool_f hp \<le> H"
    and fw: "\<And>w. w < n_W \<Longrightarrow> w * pool_stride hp + pool_f hp \<le> W"
  shows "\<exists>G. Pooling_backward self dA (A_prev, hp) = Inr G \<and> shape4 G = shape4 A_prev \<and>
     (\<forall>i < m. \<forall>c < C. \<forall>r q.
        at4 G i r q c =
          (\<Sum>h < n_H. \<Sum>w < n_W.
             if in_window hp h w r q \<and> at4 A_prev i r q c = window_max A_prev hp i h w c
             then at4 dA i h w c else 0))"
proof -
  let ?G = "tadd (np_zeros4 (m, H, W, C))
           (\<lambda>i' r q c'. \<Sum>i < m. \<Sum>h < n_H. \<Sum>w < n_W. \<Sum>c < C.
               max_contrib A_prev hp dA i h w c i' r q c')"
  have r: "Pooling_backward self dA (A_prev, hp) = Inr ?G"
    by (rule Pooling_backward_max_tadd[OF mode shA shD f fh fw])
  have v: "at4 ?G i r q c =
          (\<Sum>h < n_H. \<Sum>w < n_W.
             if in_window hp h w r q \<and> at4 A_prev i r q c = window_max A_prev hp i h w c
             then at4 dA i h w c else 0)" if "i < m" "c < C" for i c r q
    using sum4_collapse[OF that, where nH = n_H and nW = n_W and v = "at4 dA" and
        P = "\<lambda>i' c' h w. in_window hp h w r q \<and> at4 A_prev i' r q c' = window_max A_prev hp i' h w c'"]
    by (simp add: max_contrib_def np_zeros4_def eq_commute[of i] eq_commute[of c])
  have "shape4 ?G = shape4 A_prev" by (simp add: shA np_zeros4_def)
  with r v show ?thesis by blast
qed

lemma in_window_unique:
  assumes "pool_f hp \<le> pool_stride hp" "in_window hp h w r q" "in_window hp h' w' r q"
  shows "h' = h \<and> w' = w"
proof -
  have one: "a = b" if "a * s \<le> x" "x < a * s + f" "b * s \<le> x" "x < b * s + f" "f \<le> s"
    for a b s f x :: nat
  proof (rule ccontr)
    assume "a \<noteq> b"
    then consider "Suc a \<le> b" | "Suc b \<le> a" by linarith
    then show False
    proof cases
      case 1
      then have "Suc a * s \<le> b * s" by (rule mult_le_mono1)
      with that show False by simp
    next
      case 2
      then have "Suc b * s \<le> a * s" by (rule mult_le_mono1)
      with that show False by simp
    qed
  qed
  from assms(2) have a: "h * pool_stride hp \<le> r" "r < h * pool_stride hp + pool_f hp"
    "w * pool_stride hp \<le> q" "q < w * pool_stride hp + pool_f hp"
    by (simp_all add: in_window_def)
  from assms(3) have b: "h' * pool_stride hp \<le> r" "r < h' * pool_stride hp + pool_f hp"
    "w' * pool_stride hp \<le> q" "q < w' * pool_stride hp + pool_f hp"
    by (simp_all add: in_window_def)
  have "h' = h" by (rule one[OF b(1,2) a(1,2) assms(1)])
  moreover have "w' = w" by (rule one[OF b(3,4) a(3,4) assms(1)])
  ultimately show ?thesis by (rule conjI)
qed

lemma sum2_delta:
  assumes "h < (nH::nat)" "w < (nW::nat)"
  shows "(\<Sum>h' < nH. \<Sum>w' < nW. if h' = h \<and> w' = w then x else 0) = (x::real)"
proof -
  have "(\<Sum>h' < nH. \<Sum>w' < nW. if h' = h \<and> w' = w then x else 0)
      = (\<Sum>h' < nH. if h' = h then (\<Sum>w' < nW. if w' = w then x else 0) else 0)"
    by (intro sum.cong refl) auto
  also have "\<dots> = x" using assms by simp
  finally show ?thesis .
qed

lemma disjoint_window_sum:
  assumes "pool_f hp \<le> pool_stride hp" "h < n_H" "w < n_W" "in_window hp h w r q"
  shows "(\<Sum>h' < n_H. \<Sum>w' < n_W. if in_window hp h' w' r q \<and> M h' w' then v h' w' else 0)
       = (if M h w then v h w else (0::real))"
proof -
  have "(\<Sum>h' < n_H. \<Sum>w' < n_W. if in_window hp h' w' r q \<and> M h' w' then v h' w' else 0)
      = (\<Sum>h' < n_H. \<Sum>w' < n_W. if h' = h \<and> w' = w then (if M h w then v h w else 0) else 0)"
  proof (intro sum.cong refl)
    fix h' w'
    show "(if in_window hp h' w' r q \<and> M h' w' then v h' w' else 0)
        = (if h' = h \<and> w' = w then (if M h w then v h w else 0) else 0)"
    proof (cases "in_window hp h' w' r q")
      case True
      then have "h' = h \<and> w' = w" by (rule in_window_unique[OF assms(1,4)])
      then show ?thesis using True by simp
    next
      case False
      then have "\<not> (h' = h \<and> w' = w)" using assms(4) by auto
      then show ?thesis using False by auto
    qed
  qed
  then show ?thesis by (simp only: sum2_delta[OF assms(2,3)])
qed

lemma np_max_2x2:
  assumes "nrows A = 2" "ncols A = 2"
  shows "np_max A = Inr (max (max (cell A 0 0) (cell A 0 1)) (max (cell A 1 0) (cell A 1 1)))"
  using assms
  by (simp add: np_max_def lessThan_nat_numeral lessThan_Suc max.commute max.left_commute max.assoc)

lemma Pooling_backward_max_tie_example:
  "\<exists>G. Pooling_backward \<lparr>pool_hparams = \<lparr>pool_f = 2, pool_stride = 2\<rparr>, pool_mode = ''max''\<rparr>
          (np_array4 [[[[3]]]])
          (np_array4 [[[[5], [5]], [[1], [2]]]], \<lparr>pool_f = 2, pool_stride = 2\<rparr>) = Inr G \<and>
       tolist4 G = [[[[3], [3]], [[0], [0]]]]"
  apply (simp add: Pooling_backward_def np_array4_def len_hd_def Pooling_backward_cell_def
     np_zeros4_def Let_def)
  apply (simp add: np_max_2x2 slice_hw_def add_window_def tolist4_def upt_rec)
  done

text \<open>
  C5.  In max mode, for an upstream gradient \<open>dA\<close> whose windows all lie inside the input
  (as for the output of \<open>Pooling.forward\<close>), \<open>Pooling.backward\<close> returns an array of the
  input's shape in which cell \<open>(i, r, q, c)\<close> holds the sum, over the windows \<open>(h, w)\<close> that
  contain \<open>(r, q)\<close> and whose maximum the input cell equals, of the full value
  \<open>dA[i, h, w, c]\<close>: every cell equal to its window's maximum receives the whole gradient,
  ties included, and a cell below the maximum receives nothing from that window.  When the
  windows do not overlap (\<open>f \<le> stride\<close>), each cell of window \<open>(h, w)\<close> holds
  \<open>dA[i, h, w, c]\<close> if it equals the window's maximum and 0 otherwise, so a unique maximum
  takes the entire gradient.  For the window \<open>[[5, 5], [1, 2]]\<close> and upstream gradient 3 the
  two cells holding 5 receive 3 each.
\<close>

theorem Pooling_backward_max_mask:
  assumes "pool_mode self = ''max''"
    and "shape4 A_prev = (m, H, W, C)" and "shape4 dA = (m, n_H, n_W, C)"
    and "0 < pool_f hp"
    and "\<forall>h < n_H. h * pool_stride hp + pool_f hp \<le> H"
    and "\<forall>w < n_W. w * pool_stride hp + pool_f hp \<le> W"
  shows "(\<exists>G. Pooling_backward self dA (A_prev, hp) = Inr G \<and> shape4 G = shape4 A_prev \<and>
     (\<forall>i < m. \<forall>c < C. \<forall>r q.
        at4 G i r q c =
          (\<Sum>h < n_H. \<Sum>w < n_W.
             if in_window hp h w r q \<and> at4 A_prev i r q c = window_max A_prev hp i h w c
             then at4 dA i h w c else 0)) \<and>
     (pool_f hp \<le> pool_stride hp \<longrightarrow>
        (\<forall>i < m. \<forall>c < C. \<forall>h < n_H. \<forall>w < n_W. \<forall>r q. in_window hp h w r q \<longrightarrow>
           at4 G i r q c =
             (if at4 A_prev i r q c = window_max A_prev hp i h w c then at4 dA i h w c else 0)))) \<and>
   (\<exists>G. Pooling_backward \<lparr>pool_hparams = \<lparr>pool_f = 2, pool_stride = 2\<rparr>, pool_mode = ''max''\<rparr>
          (np_array4 [[[[3]]]])
          (np_array4 [[[[5], [5]], [[1], [2]]]], \<lparr>pool_f = 2, pool_stride = 2\<rparr>) = Inr G \<and>
       tolist4 G = [[[[3], [3]], [[0], [0]]]])"
proof -
  from Pooling_backward_max_value[OF assms(1,2,3,4)] assms(5,6)
  obtain G where G: "Pooling_backward self dA (A_prev, hp) = Inr G" "shape4 G = shape4 A_prev"
    and v: "\<And>i c r q. i < m \<Longrightarrow> c < C \<Longrightarrow>
        at4 G i r q c =
          (\<Sum>h < n_H. \<Sum>w < n_W.
             if in_window hp h w r q \<and> at4 A_prev i r q c = window_max A_prev hp i h w c
             then at4 dA i h w c else 0)"
    by blast
  have d: "at4 G i r q c =
             (if at4 A_prev i r q c = window_max A_prev hp i h w c then at4 dA i h w c else 0)"
    if "pool_f hp \<le> pool_stride hp" "i < m" "c < C" "h < n_H" "w < n_W" "in_window hp h w r q"
    for i c h w r q
    unfolding v[OF that(2,3)]
    by (rule disjoint_window_sum[OF that(1,4,5,6)])
  show ?thesis
    using G v d Pooling_backward_max_tie_example by blast
qed


theorem Pooling_backward_max_mask_witness:
  "pool_mode \<lparr>pool_hparams = \<lparr>pool_f = 2, pool_stride = 2\<rparr>, pool_mode = ''max''\<rparr> = ''max'' \<and>
   shape4 (np_array4 [[[[1], [2]], [[3], [4]]]]) = (1, 2, 2, 1) \<and>
   shape4 (np_array4 [[[[3]]]]) = (1, 1, 1, 1) \<and>
   (\<exists>G. Pooling_backward \<lparr>pool_hparams = \<lparr>pool_f = 2, pool_stride = 2\<rparr>, pool_mode = ''max''\<rparr>
          (np_array4 [[[[3]]]])
          (np_array4 [[[[1], [2]], [[3], [4]]]], \<lparr>pool_f = 2, pool_stride = 2\<rparr>) = Inr G \<and>
        tolist4 G = [[[[0], [0]], [[0], [3]]]])"
proof -
  define self where "self = \<lparr>pool_hparams = \<lparr>pool_f = 2, pool_stride = 2\<rparr>, pool_mode = ''max''\<rparr>"
  define hp where "hp = \<lparr>pool_f = 2, pool_stride = 2\<rparr>"
  define A where "A = np_array4 [[[[1], [2]], [[3], [4]]]]"
  define dA where "dA = np_array4 [[[[3]]]]"
  have h1: "pool_mode self = ''max''" by (simp add: self_def)
  have h2: "shape4 A = (1, 2, 2, 1)" by (simp add: A_def np_array4_def len_hd_def)
  have h3: "shape4 dA = (1, 1, 1, 1)" by (simp add: dA_def np_array4_def len_hd_def)
  have h4: "0 < pool_f hp" by (simp add: hp_def)
  have h5: "\<forall>h < 1. h * pool_stride hp + pool_f hp \<le> 2" by (simp add: hp_def)
  have fs: "pool_f hp \<le> pool_stride hp" by (simp add: hp_def)
  from Pooling_backward_max_mask[OF h1 h2 h3 h4 h5 h5, THEN conjunct1]
  obtain G where G: "Pooling_backward self dA (A, hp) = Inr G" "shape4 G = shape4 A"
    and d: "pool_f hp \<le> pool_stride hp \<longrightarrow>
        (\<forall>i < 1. \<forall>c < 1. \<forall>h < 1. \<forall>w < 1. \<forall>r q. in_window hp h w r q \<longrightarrow>
           at4 G i r q c =
             (if at4 A i r q c = window_max A hp i h w c then at4 dA i h w c else 0))"
    by (elim exE conjE)
  have wm: "window_max A hp 0 0 0 0 = 4"
    by (simp add: window_max_def A_def hp_def np_array4_def lessThan_nat_numeral lessThan_Suc)
  have cellv: "at4 G 0 r q 0 = (if at4 A 0 r q 0 = 4 then 3 else 0)" if "r < 2" "q < 2" for r q
  proof -
    have "in_window hp 0 0 r q" using that by (simp add: in_window_def hp_def)
    with d fs have "at4 G 0 r q 0 =
             (if at4 A 0 r q 0 = window_max A hp 0 0 0 0 then at4 dA 0 0 0 0 else 0)"
      by simp
    then show ?thesis by (simp add: wm dA_def np_array4_def)
  qed
  have "at4 G 0 0 0 0 = 0" "at4 G 0 0 (Suc 0) 0 = 0" "at4 G 0 (Suc 0) 0 0 = 0" "at4 G 0 (Suc 0) (Suc 0) 0 = 3"
    using cellv[of 0 0] cellv[of 0 "Suc 0"] cellv[of "Suc 0" 0] cellv[of "Suc 0" "Suc 0"]
    by (simp_all add: A_def np_array4_def)
  then have "tolist4 G = [[[[0], [0]], [[0], [3]]]]"
    by (simp add: tolist4_def G(2) h2 upt_rec)
  with G(1) have "\<exists>G. Pooling_backward self dA (A, hp) = Inr G \<and> tolist4 G = [[[[0], [0]], [[0], [3]]]]"
    by blast
  then show ?thesis
    using h1 h2 h3 unfolding self_def hp_def A_def dA_def by (intro conjI)
qed

lemma avg_cell:
  assumes "pool_mode self = ''average''" "shape4 A_prev = (m, H, W, C)" "shape4 T = (m, H, W, C)"
    "c < C" "h * pool_stride hp + pool_f hp \<le> H" "w * pool_stride hp + pool_f hp \<le> W"
  shows "Pooling_backward_cell self hp A_prev dA i h w c T = Inr (tadd T (avg_contrib hp dA i h w c))"
proof -
  have eq: "add_window T i (h * pool_stride hp) (h * pool_stride hp + pool_f hp)
       (w * pool_stride hp) (w * pool_stride hp + pool_f hp) c
       (\<lambda>a b. at4 dA i h w c / real (pool_f hp * pool_f hp))
     = tadd T (avg_contrib hp dA i h w c)"
    using assms(3,5,6)
    by (auto simp: add_window_def tadd_def avg_contrib_def in_window_def fun_eq_iff min_def
        intro!: arg_cong[where f="\<lambda>f. at4_update f T"])
  show ?thesis
    using assms(1,2,4,5,6)
    by (simp add: Pooling_backward_cell_def Let_def eq[unfolded of_nat_mult] min_def)
qed

lemma Pooling_backward_avg_tadd:
  assumes mode: "pool_mode self = ''average''"
    and shA: "shape4 A_prev = (m, H, W, C)" and shD: "shape4 dA = (m, n_H, n_W, C)"
    and fh: "\<And>h. h < n_H \<Longrightarrow> h * pool_stride hp + pool_f hp \<le> H"
    and fw: "\<And>w. w < n_W \<Longrightarrow> w * pool_stride hp + pool_f hp \<le> W"
  shows "Pooling_backward self dA (A_prev, hp) =
     Inr (tadd (np_zeros4 (m, H, W, C))
           (\<lambda>i' r q c'. \<Sum>i < m. \<Sum>h < n_H. \<Sum>w < n_W. \<Sum>c < C.
               avg_contrib hp dA i h w c i' r q c'))"
proof -
  have c_loop: "for_range C (Pooling_backward_cell self hp A_prev dA i h w) T
      = Inr (tadd T (\<lambda>i' r q c'. \<Sum>c < C. avg_contrib hp dA i h w c i' r q c'))"
    if "h < n_H" "w < n_W" "shape4 T = (m, H, W, C)" for i h w T
    by (rule for_range_tadd[where s = "(m, H, W, C)" and g = "avg_contrib hp dA i h w"])
       (use that in \<open>auto intro!: avg_cell[OF mode shA _ _ fh fw]\<close>)
  have w_loop: "for_range n_W (\<lambda>w. for_range C (Pooling_backward_cell self hp A_prev dA i h w)) T
      = Inr (tadd T (\<lambda>i' r q c'. \<Sum>w < n_W. \<Sum>c < C. avg_contrib hp dA i h w c i' r q c'))"
    if "h < n_H" "shape4 T = (m, H, W, C)" for i h T
    by (rule for_range_tadd[where s = "(m, H, W, C)"
          and g = "\<lambda>w i' r q c'. \<Sum>c < C. avg_contrib hp dA i h w c i' r q c'"])
       (use that in \<open>auto intro!: c_loop\<close>)
  have h_loop: "for_range n_H (\<lambda>h. for_range n_W (\<lambda>w. for_range C (Pooling_backward_cell self hp A_prev dA i h w))) T
      = Inr (tadd T (\<lambda>i' r q c'. \<Sum>h < n_H. \<Sum>w < n_W. \<Sum>c < C. avg_contrib hp dA i h w c i' r q c'))"
    if "shape4 T = (m, H, W, C)" for i T
    by (rule for_range_tadd[where s = "(m, H, W, C)"
          and g = "\<lambda>h i' r q c'. \<Sum>w < n_W. \<Sum>c < C. avg_contrib hp dA i h w c i' r q c'"])
       (use that in \<open>auto intro!: w_loop\<close>)
  have i_loop: "for_range m (\<lambda>i dA_prev. if m \<le> i then Inl IndexError
          else for_range n_H (\<lambda>h. for_range n_W (\<lambda>w. for_range C (Pooling_backward_cell self hp A_prev dA i h w))) dA_prev) T
      = Inr (tadd T (\<lambda>i' r q c'. \<Sum>i < m. \<Sum>h < n_H. \<Sum>w < n_W. \<Sum>c < C. avg_contrib hp dA i h w c i' r q c'))"
    if "shape4 T = (m, H, W, C)" for T
    by (rule for_range_tadd[where s = "(m, H, W, C)"
          and g = "\<lambda>i i' r q c'. \<Sum>h < n_H. \<Sum>w < n_W. \<Sum>c < C. avg_contrib hp dA i h w c i' r q c'"])
       (use that in \<open>auto intro!: h_loop\<close>)
  show ?thesis
    by (simp add: Pooling_backward_def shA shD i_loop np_zeros4_def)
qed

lemma Pooling_backward_avg_value:
  assumes mode: "pool_mode self = ''average''"
    and shA: "shape4 A_prev = (m, H, W, C)" and shD: "shape4 dA = (m, n_H, n_W, C)"
    and fh: "\<And>h. h < n_H \<Longrightarrow> h * pool_stride hp + pool_f hp \<le> H"
    and fw: "\<And>w. w < n_W \<Longrightarrow> w * pool_stride hp + pool_f hp \<le> W"
  shows "\<exists>G. Pooling_backward self dA (A_prev, hp) = Inr G \<and> shape4 G = shape4 A_prev \<and>
     (\<forall>i < m. \<forall>c < C. \<forall>r q.
        at4 G i r q c =
          (\<Sum>h < n_H. \<Sum>w < n_W.
             if in_window hp h w r q then at4 dA i h w c / real (pool_f hp * pool_f hp) else 0))"
proof -
  let ?G = "tadd (np_zeros4 (m, H, W, C))
           (\<lambda>i' r q c'. \<Sum>i < m. \<Sum>h < n_H. \<Sum>w < n_W. \<Sum>c < C.
               avg_contrib hp dA i h w c i' r q c')"
  have r: "Pooling_backward self dA (A_prev, hp) = Inr ?G"
    by (rule Pooling_backward_avg_tadd[OF mode shA shD fh fw])
  have v: "at4 ?G i r q c =
          (\<Sum>h < n_H. \<Sum>w < n_W.
             if in_window hp h w r q then at4 dA i h w c / real (pool_f hp * pool_f hp) else 0)"
    if "i < m" "c < C" for i c r q
    using sum4_collapse[OF that, where nH = n_H and nW = n_W
        and v = "\<lambda>i h w c. at4 dA i h w c / real (pool_f hp * pool_f hp)"
        and P = "\<lambda>i' c' h w. in_window hp h w r q"]
    by (simp add: avg_contrib_def np_zeros4_def eq_commute[of i] eq_commute[of c])
  have "shape4 ?G = shape4 A_prev" by (simp add: shA np_zeros4_def)
  with r v show ?thesis by blast
qed

lemma sum_interval_indicator:
  assumes "a + f \<le> (H::nat)"
  shows "(\<Sum>r < H. if a \<le> r \<and> r < a + f then y r else 0) = (\<Sum>r = a..<a + f. (y r :: real))"
proof -
  have "(\<Sum>r < H. if a \<le> r \<and> r < a + f then y r else 0) = sum y {r \<in> {..< H}. a \<le> r \<and> r < a + f}"
    by (rule sum.inter_filter[symmetric]) simp
  also have "{r \<in> {..< H}. a \<le> r \<and> r < a + f} = {a..<a + f}"
    using assms by auto
  finally show ?thesis .
qed

lemma window_total:
  assumes "h * pool_stride hp + pool_f hp \<le> H" "w * pool_stride hp + pool_f hp \<le> W" "0 < pool_f hp"
  shows "(\<Sum>r < H. \<Sum>q < W. if in_window hp h w r q then x / real (pool_f hp * pool_f hp) else 0) = x"
proof -
  let ?f = "pool_f hp" and ?s = "pool_stride hp"
  have "(\<Sum>r < H. \<Sum>q < W. if in_window hp h w r q then x / real (?f * ?f) else 0)
      = (\<Sum>r < H. if h * ?s \<le> r \<and> r < h * ?s + ?f
                    then (\<Sum>q < W. if w * ?s \<le> q \<and> q < w * ?s + ?f then x / real (?f * ?f) else 0) else 0)"
    by (intro sum.cong refl) (auto simp: in_window_def)
  also have "\<dots> = (\<Sum>r = h * ?s..<h * ?s + ?f. \<Sum>q = w * ?s..<w * ?s + ?f. x / real (?f * ?f))"
    by (simp only: sum_interval_indicator[OF assms(1)] sum_interval_indicator[OF assms(2)])
  also have "\<dots> = x"
    using assms(3) by simp
  finally show ?thesis .
qed


lemma sum4_swap:
  "(\<Sum>r \<in> A. \<Sum>q \<in> B. \<Sum>h \<in> C. \<Sum>w \<in> D. t r q h w)
   = (\<Sum>h \<in> C. \<Sum>w \<in> D. \<Sum>r \<in> A. \<Sum>q \<in> B. (t r q h w :: real))"
proof -
  have "(\<Sum>r \<in> A. \<Sum>q \<in> B. \<Sum>h \<in> C. \<Sum>w \<in> D. t r q h w)
      = (\<Sum>r \<in> A. \<Sum>h \<in> C. \<Sum>q \<in> B. \<Sum>w \<in> D. t r q h w)"
    by (rule sum.cong[OF refl]) (rule sum.swap)
  also have "\<dots> = (\<Sum>r \<in> A. \<Sum>h \<in> C. \<Sum>w \<in> D. \<Sum>q \<in> B. t r q h w)"
    by (rule sum.cong[OF refl], rule sum.cong[OF refl], rule sum.swap)
  also have "\<dots> = (\<Sum>h \<in> C. \<Sum>r \<in> A. \<Sum>w \<in> D. \<Sum>q \<in> B. t r q h w)"
    by (rule sum.swap)
  also have "\<dots> = (\<Sum>h \<in> C. \<Sum>w \<in> D. \<Sum>r \<in> A. \<Sum>q \<in> B. t r q h w)"
    by (rule sum.cong[OF refl], rule sum.swap)
  finally show ?thesis .
qed

lemma Pooling_backward_average_example:
  "\<exists>G. Pooling_backward \<lparr>pool_hparams = \<lparr>pool_f = 2, pool_stride = 2\<rparr>, pool_mode = ''average''\<rparr>
          (np_array4 [[[[4]]]])
          (np_array4 [[[[1], [2]], [[3], [4]]]], \<lparr>pool_f = 2, pool_stride = 2\<rparr>) = Inr G \<and>
       tolist4 G = [[[[1], [1]], [[1], [1]]]]"
  apply (simp add: Pooling_backward_def np_array4_def len_hd_def Pooling_backward_cell_def
     np_zeros4_def Let_def)
  apply (simp add: add_window_def tolist4_def upt_rec)
  done

text \<open>
  C6.  In average mode, for an upstream gradient \<open>dA\<close> whose windows all lie inside the
  input, \<open>Pooling.backward\<close> returns an array of the input's shape in which cell
  \<open>(i, r, q, c)\<close> holds the sum, over the windows \<open>(h, w)\<close> that contain \<open>(r, q)\<close>, of
  \<open>dA[i, h, w, c] / (f \<cdot> f)\<close>: overlapping windows add up.  What one window hands out sums
  to its upstream value, and so the returned gradient of one sample and channel sums to the
  sum of the upstream gradient.  For the 2 by 2 window \<open>[[1, 2], [3, 4]]\<close> and upstream
  gradient 4 every input cell receives 1.
\<close>

theorem Pooling_backward_average_spread:
  assumes "pool_mode self = ''average''"
    and "shape4 A_prev = (m, H, W, C)" and "shape4 dA = (m, n_H, n_W, C)"
    and "0 < pool_f hp"
    and "\<forall>h < n_H. h * pool_stride hp + pool_f hp \<le> H"
    and "\<forall>w < n_W. w * pool_stride hp + pool_f hp \<le> W"
  shows "(\<exists>G. Pooling_backward self dA (A_prev, hp) = Inr G \<and> shape4 G = shape4 A_prev \<and>
     (\<forall>i < m. \<forall>c < C.
        (\<forall>r q. at4 G i r q c =
           (\<Sum>h < n_H. \<Sum>w < n_W.
              if in_window hp h w r q then at4 dA i h w c / real (pool_f hp * pool_f hp) else 0)) \<and>
        (\<forall>h < n_H. \<forall>w < n_W.
           (\<Sum>r < H. \<Sum>q < W.
              if in_window hp h w r q then at4 dA i h w c / real (pool_f hp * pool_f hp) else 0)
           = at4 dA i h w c) \<and>
        (\<Sum>r < H. \<Sum>q < W. at4 G i r q c) = (\<Sum>h < n_H. \<Sum>w < n_W. at4 dA i h w c))) \<and>
   (\<exists>G. Pooling_backward \<lparr>pool_hparams = \<lparr>pool_f = 2, pool_stride = 2\<rparr>, pool_mode = ''average''\<rparr>
          (np_array4 [[[[4]]]])
          (np_array4 [[[[1], [2]], [[3], [4]]]], \<lparr>pool_f = 2, pool_stride = 2\<rparr>) = Inr G \<and>
       tolist4 G = [[[[1], [1]], [[1], [1]]]])"
proof -
  have fh: "h * pool_stride hp + pool_f hp \<le> H" if "h < n_H" for h
    using assms(5) that by simp
  have fw: "w * pool_stride hp + pool_f hp \<le> W" if "w < n_W" for w
    using assms(6) that by simp
  have "\<exists>G. Pooling_backward self dA (A_prev, hp) = Inr G \<and> shape4 G = shape4 A_prev \<and>
     (\<forall>i < m. \<forall>c < C. \<forall>r q.
        at4 G i r q c =
          (\<Sum>h < n_H. \<Sum>w < n_W.
             if in_window hp h w r q then at4 dA i h w c / real (pool_f hp * pool_f hp) else 0))"
    by (rule Pooling_backward_avg_value[OF assms(1,2,3)]) (rule fh, assumption, rule fw, assumption)
  then obtain G where G: "Pooling_backward self dA (A_prev, hp) = Inr G" "shape4 G = shape4 A_prev"
    and v0: "\<forall>i < m. \<forall>c < C. \<forall>r q.
        at4 G i r q c =
          (\<Sum>h < n_H. \<Sum>w < n_W.
             if in_window hp h w r q then at4 dA i h w c / real (pool_f hp * pool_f hp) else 0)"
    by (elim exE conjE)
  have v: "at4 G i r q c =
          (\<Sum>h < n_H. \<Sum>w < n_W.
             if in_window hp h w r q then at4 dA i h w c / real (pool_f hp * pool_f hp) else 0)"
    if "i < m" "c < C" for i c r q
    using v0 that by simp
  have wt: "(\<Sum>r < H. \<Sum>q < W.
              if in_window hp h w r q then at4 dA i h w c / real (pool_f hp * pool_f hp) else 0)
           = at4 dA i h w c" if "h < n_H" "w < n_W" for i c h w
    by (rule window_total[OF fh[OF that(1)] fw[OF that(2)] assms(4)])
  have tot: "(\<Sum>r < H. \<Sum>q < W. at4 G i r q c) = (\<Sum>h < n_H. \<Sum>w < n_W. at4 dA i h w c)"
    if "i < m" "c < C" for i c
  proof -
    have "(\<Sum>r < H. \<Sum>q < W. at4 G i r q c)
        = (\<Sum>r < H. \<Sum>q < W. \<Sum>h < n_H. \<Sum>w < n_W.
             if in_window hp h w r q then at4 dA i h w c / real (pool_f hp * pool_f hp) else 0)"
      by (simp only: v[OF that])
    also have "\<dots> = (\<Sum>h < n_H. \<Sum>w < n_W. \<Sum>r < H. \<Sum>q < W.
             if in_window hp h w r q then at4 dA i h w c / real (pool_f hp * pool_f hp) else 0)"
      by (rule sum4_swap)
    also have "\<dots> = (\<Sum>h < n_H. \<Sum>w < n_W. at4 dA i h w c)"
      by (intro sum.cong refl wt) auto
    finally show ?thesis .
  qed
  have all: "\<forall>i < m. \<forall>c < C.
        (\<forall>r q. at4 G i r q c =
           (\<Sum>h < n_H. \<Sum>w < n_W.
              if in_window hp h w r q then at4 dA i h w c / real (pool_f hp * pool_f hp) else 0)) \<and>
        (\<forall>h < n_H. \<forall>w < n_W.
           (\<Sum>r < H. \<Sum>q < W.
              if in_window hp h w r q then at4 dA i h w c / real (pool_f hp * pool_f hp) else 0)
           = at4 dA i h w c) \<and>
        (\<Sum>r < H. \<Sum>q < W. at4 G i r q c) = (\<Sum>h < n_H. \<Sum>w < n_W. at4 dA i h w c)"
  proof (intro allI impI conjI)
    fix i c r q assume "i < m" "c < C"
    then show "at4 G i r q c =
           (\<Sum>h < n_H. \<Sum>w < n_W.
              if in_window hp h w r q then at4 dA i h w c / real (pool_f hp * pool_f hp) else 0)"
      by (rule v)
  next
    fix i c h w assume "h < n_H" "w < n_W"
    then show "(\<Sum>r < H. \<Sum>q < W.
              if in_window hp h w r q then at4 dA i h w c / real (pool_f hp * pool_f hp) else 0)
           = at4 dA i h w c"
      by (rule wt)
  next
    fix i c assume "i < m" "c < C"
    then show "(\<Sum>r < H. \<Sum>q < W. at4 G i r q c) = (\<Sum>h < n_H. \<Sum>w < n_W. at4 dA i h w c)"
      by (rule tot)
  qed
  have part1: "\<exists>G. Pooling_backward self dA (A_prev, hp) = Inr G \<and> shape4 G = shape4 A_prev \<and>
     (\<forall>i < m. \<forall>c < C.
        (\<forall>r q. at4 G i r q c =
           (\<Sum>h < n_H. \<Sum>w < n_W.
              if in_window hp h w r q then at4 dA i h w c / real (pool_f hp * pool_f hp) else 0)) \<and>
        (\<forall>h < n_H. \<forall>w < n_W.
           (\<Sum>r < H. \<Sum>q < W.
              if in_window hp h w r q then at4 dA i h w c / real (pool_f hp * pool_f hp) else 0)
           = at4 dA i h w c) \<and>
        (\<Sum>r < H. \<Sum>q < W. at4 G i r q c) = (\<Sum>h < n_H. \<Sum>w < n_W. at4 dA i h w c))"
    using G all by (intro exI[of _ G] conjI)
  show ?thesis
    using part1 Pooling_backward_average_example by (rule conjI)
qed


theorem Pooling_backward_average_spread_witness:
  "pool_mode \<lparr>pool_hparams = \<lparr>pool_f = 2, pool_stride = 1\<rparr>, pool_mode = ''average''\<rparr> = ''average'' \<and>
   shape4 (np_array4 [[[[1], [2], [3]], [[4], [5], [6]]]]) = (1, 2, 3, 1) \<and>
   shape4 (np_array4 [[[[4], [8]]]]) = (1, 1, 2, 1) \<and>
   (\<exists>G. Pooling_backward \<lparr>pool_hparams = \<lparr>pool_f = 2, pool_stride = 1\<rparr>, pool_mode = ''average''\<rparr>
          (np_array4 [[[[4], [8]]]])
          (np_array4 [[[[1], [2], [3]], [[4], [5], [6]]]], \<lparr>pool_f = 2, pool_stride = 1\<rparr>) = Inr G \<and>
        tolist4 G = [[[[1], [3], [2]], [[1], [3], [2]]]])"
proof -
  define self where "self = \<lparr>pool_hparams = \<lparr>pool_f = 2, pool_stride = 1\<rparr>, pool_mode = ''average''\<rparr>"
  define hp where "hp = \<lparr>pool_f = 2, pool_stride = 1\<rparr>"
  define A where "A = np_array4 [[[[1], [2], [3]], [[4], [5], [6]]]]"
  define dA where "dA = np_array4 [[[[4], [8]]]]"
  have h1: "pool_mode self = ''average''" by (simp add: self_def)
  have h2: "shape4 A = (1, 2, 3, 1)" by (simp add: A_def np_array4_def len_hd_def)
  have h3: "shape4 dA = (1, 1, 2, 1)" by (simp add: dA_def np_array4_def len_hd_def)
  have h4: "0 < pool_f hp" by (simp add: hp_def)
  have h5: "\<forall>h < 1. h * pool_stride hp + pool_f hp \<le> 2" by (simp add: hp_def)
  have h6: "\<forall>w < 2. w * pool_stride hp + pool_f hp \<le> 3" by (simp add: hp_def less_Suc_eq numeral_2_eq_2)
  from Pooling_backward_average_spread[OF h1 h2 h3 h4 h5 h6, THEN conjunct1]
  obtain G where G: "Pooling_backward self dA (A, hp) = Inr G" "shape4 G = shape4 A"
    and v0: "\<forall>i < 1. \<forall>c < 1.
        (\<forall>r q. at4 G i r q c =
           (\<Sum>h < 1. \<Sum>w < 2.
              if in_window hp h w r q then at4 dA i h w c / real (pool_f hp * pool_f hp) else 0)) \<and>
        (\<forall>h < 1. \<forall>w < 2.
           (\<Sum>r < 2. \<Sum>q < 3.
              if in_window hp h w r q then at4 dA i h w c / real (pool_f hp * pool_f hp) else 0)
           = at4 dA i h w c) \<and>
        (\<Sum>r < 2. \<Sum>q < 3. at4 G i r q c) = (\<Sum>h < 1. \<Sum>w < 2. at4 dA i h w c)"
    by (elim exE conjE)
  have v: "at4 G 0 r q 0 =
           (\<Sum>h < 1. \<Sum>w < 2.
              if in_window hp h w r q then at4 dA 0 h w 0 / real (pool_f hp * pool_f hp) else 0)"
    for r q
    using v0 by simp
  have d: "at4 dA 0 0 0 0 = 4" "at4 dA 0 0 (Suc 0) 0 = 8"
    by (simp_all add: dA_def np_array4_def)
  have "at4 G 0 0 0 0 = 1" "at4 G 0 0 (Suc 0) 0 = 3" "at4 G 0 0 2 0 = 2"
       "at4 G 0 (Suc 0) 0 0 = 1" "at4 G 0 (Suc 0) (Suc 0) 0 = 3" "at4 G 0 (Suc 0) 2 0 = 2"
    by (simp_all add: v sum_lessThan_2 in_window_def hp_def d)
  then have "tolist4 G = [[[[1], [3], [2]], [[1], [3], [2]]]]"
    by (simp add: tolist4_def G(2) h2 upt_rec numeral_2_eq_2)
  with G(1) have "\<exists>G. Pooling_backward self dA (A, hp) = Inr G \<and> tolist4 G = [[[[1], [3], [2]], [[1], [3], [2]]]]"
    by blast
  then show ?thesis
    using h1 h2 h3 unfolding self_def hp_def A_def dA_def by (intro conjI)
qed

end
